theory Spec2Isabelle
  imports Main "HOL-Library.Word"
begin

section \<open>The client-side sampler of the replay service (reverb/cc/sampler.cc)\<close>

text \<open>
  A shallow embedding of \<^verbatim>\<open>reverb/cc/sampler.cc\<close>: the completion test of a streamed
  sample, the two ways a sample is assembled, the \<^verbatim>\<open>Sample\<close> class, the two sampler workers
  and the \<^verbatim>\<open>Sampler\<close> itself. Functions keep the names of the source. A failure of a
  \<^verbatim>\<open>REVERB_CHECK\<close>, a failed check inside the tensor library and undefined behaviour of
  C++ are values of the type \<open>fault\<close>; a call that would wait on the queue in the given state
  is \<open>Blocks\<close>.
\<close>

subsection \<open>Status values (absl::Status)\<close>

datatype StatusCode =
    kOk | kCancelled | kUnknown | kInvalidArgument | kDeadlineExceeded | kNotFound
  | kAlreadyExists | kPermissionDenied | kResourceExhausted | kFailedPrecondition
  | kAborted | kOutOfRange | kUnimplemented | kInternal | kUnavailable | kDataLoss
  | kUnauthenticated

datatype Status = Status (code: StatusCode) (message: string)

definition OkStatus :: Status where
  "OkStatus = Status kOk []"

definition ok :: "Status \<Rightarrow> bool" where
  "ok s = (code s = kOk)"

definition IsUnavailable :: "Status \<Rightarrow> bool" where
  "IsUnavailable s = (code s = kUnavailable)"

definition IsDeadlineExceeded :: "Status \<Rightarrow> bool" where
  "IsDeadlineExceeded s = (code s = kDeadlineExceeded)"

definition CancelledError :: "string \<Rightarrow> Status" where
  "CancelledError m = Status kCancelled m"

definition OutOfRangeError :: "string \<Rightarrow> Status" where
  "OutOfRangeError m = Status kOutOfRange m"

definition InternalError :: "string \<Rightarrow> Status" where
  "InternalError m = Status kInternal m"

definition InvalidArgumentError :: "string \<Rightarrow> Status" where
  "InvalidArgumentError m = Status kInvalidArgument m"

definition DataLossError :: "string \<Rightarrow> Status" where
  "DataLossError m = Status kDataLoss m"

definition FailedPreconditionError :: "string \<Rightarrow> Status" where
  "FailedPreconditionError m = Status kFailedPrecondition m"

text \<open>What stops the process or leaves the language's defined behaviour.\<close>

datatype fault = CheckFailed string | UndefinedBehaviour string

text \<open>\<^verbatim>\<open>absl::StrCat\<close> of an integer: its decimal digits, after the sign if it is
  negative.\<close>

fun digits :: "nat \<Rightarrow> string" where
  "digits n = (if n < 10 then [''0123456789'' ! n]
               else digits (n div 10) @ [''0123456789'' ! (n mod 10)])"

declare digits.simps [simp del]

definition StrCatInt :: "int \<Rightarrow> string" where
  "StrCatInt i = (if i < 0 then CHR ''-'' # digits (nat (- i)) else digits (nat i))"

subsection \<open>Tensors\<close>

type_synonym uint64 = "64 word"
type_synonym int64 = "64 word"

text \<open>A \<^verbatim>\<open>double\<close> is only stored and copied here, never computed with: it is kept as its
  64 bits.\<close>

type_synonym float64 = "64 word"

datatype DataType = DT_FLOAT | DT_DOUBLE | DT_INT32 | DT_UINT8 | DT_STRING | DT_INT64
  | DT_BOOL | DT_UINT64

text \<open>A dense tensor: element type, shape, and the elements in row-major order (each element
  as raw bits).\<close>

record Tensor =
  dtype :: DataType
  shape :: "nat list"
  flat :: "64 word list"

definition dims :: "Tensor \<Rightarrow> nat" where
  "dims t = length (shape t)"

text \<open>The number of elements of one row: the product of the dimensions after the first.\<close>

definition row_size :: "Tensor \<Rightarrow> nat" where
  "row_size t = prod_list (tl (shape t))"

text \<open>\<^verbatim>\<open>Tensor::dim_size(0)\<close>. A scalar has no dimension 0: the library's check fails.\<close>

definition dim_size0 :: "Tensor \<Rightarrow> fault + nat" where
  "dim_size0 t = (case shape t of
       [] \<Rightarrow> Inl (CheckFailed ''dim_size(0) of a tensor without dimensions'')
     | d # _ \<Rightarrow> Inr d)"

text \<open>\<^verbatim>\<open>tensorflow::Tensor(value)\<close>: a scalar tensor.\<close>

definition ScalarTensor :: "DataType \<Rightarrow> 64 word \<Rightarrow> Tensor" where
  "ScalarTensor dt v = \<lparr>dtype = dt, shape = [], flat = [v]\<rparr>"

text \<open>\<^verbatim>\<open>InitializeTensor(value, length)\<close>: a vector of \<open>length\<close> copies of \<open>value\<close>.\<close>

definition InitializeTensor :: "DataType \<Rightarrow> 64 word \<Rightarrow> nat \<Rightarrow> Tensor" where
  "InitializeTensor dt v n = \<lparr>dtype = dt, shape = [n], flat = replicate n v\<rparr>"

text \<open>\<^verbatim>\<open>Tensor::Slice(start, limit)\<close> of the tensor library: the rows \<open>start \<le> i < limit\<close>.
  The library checks \<open>dims \<ge> 1\<close>, \<open>0 \<le> start\<close>, \<open>start \<le> limit\<close> and
  \<open>limit \<le> dim_size(0)\<close>.\<close>

definition Slice :: "Tensor \<Rightarrow> int \<Rightarrow> int \<Rightarrow> fault + Tensor" where
  "Slice t start limit =
     (case shape t of
        [] \<Rightarrow> Inl (CheckFailed ''Slice of a tensor without dimensions'')
      | d # ds \<Rightarrow>
          if start < 0 \<or> limit < start \<or> int d < limit
          then Inl (CheckFailed ''Slice out of range'')
          else Inr \<lparr>dtype = dtype t, shape = nat (limit - start) # ds,
                    flat = take (nat (limit - start) * prod_list ds)
                             (drop (nat start * prod_list ds) (flat t))\<rparr>)"

text \<open>\<^verbatim>\<open>Tensor::SubSlice(index)\<close> of the tensor library: row \<open>index\<close>, without the first
  dimension.\<close>

definition SubSlice :: "Tensor \<Rightarrow> int \<Rightarrow> fault + Tensor" where
  "SubSlice t i =
     (case shape t of
        [] \<Rightarrow> Inl (CheckFailed ''SubSlice of a tensor without dimensions'')
      | d # ds \<Rightarrow>
          if i < 0 \<or> int d \<le> i
          then Inl (CheckFailed ''SubSlice out of range'')
          else Inr \<lparr>dtype = dtype t, shape = ds,
                    flat = take (prod_list ds) (drop (nat i * prod_list ds) (flat t))\<rparr>)"

text \<open>\<^verbatim>\<open>IsAligned\<close> and \<^verbatim>\<open>tensor::DeepCopy\<close> concern the buffer a tensor lives in, not its
  value: a deep copy is the same tensor.\<close>

definition DeepCopy :: "Tensor \<Rightarrow> Tensor" where
  "DeepCopy t = t"

text \<open>What a call gives that returns a status and may also stop the process.\<close>

datatype 'a result = Fault fault | Error Status | Ok 'a

text \<open>\<^verbatim>\<open>tensorflow::tensor::Concat(tensors, &result)\<close> of the tensor library
  (\<^verbatim>\<open>tensorflow/core/framework/tensor_util.cc\<close>), along dimension 0. It returns an
  invalid-argument status for an empty list, for a tensor without dimensions and for tensors
  of different element types. The result has the shape of the first tensor with the summed
  first dimension, and the buffers are copied one after the other: the library's check fails
  when they do not fit, and the rest of the result is uninitialised when they do not fill it.
  The messages are the beginnings of the library's.\<close>

definition Concat :: "Tensor list \<Rightarrow> Tensor result" where
  "Concat ts =
     (if ts = [] then Error (InvalidArgumentError ''Cannot concatenate zero tensors'')
      else if \<exists>t \<in> set ts. shape t = []
        then Error (InvalidArgumentError ''Cannot concatenate a zero-dimensional tensor'')
      else if \<exists>t \<in> set ts. dtype t \<noteq> dtype (hd ts)
        then Error (InvalidArgumentError
               ''Cannot concatenate tensors that have different data types.'')
      else
        let total = sum_list (map (\<lambda>t. hd (shape t)) ts);
            elems = concat (map flat ts)
        in if total * row_size (hd ts) < length elems
             then Fault (CheckFailed ''Concat: the tensors do not fit the result'')
           else if length elems < total * row_size (hd ts)
             then Fault (UndefinedBehaviour ''Concat: part of the result is uninitialised'')
           else Ok \<lparr>dtype = dtype (hd ts), shape = total # tl (shape (hd ts)), flat = elems\<rparr>)"

subsection \<open>Messages of the wire protocol (schema.proto, reverb_service.proto)\<close>

record ChunkSlice =
  slice_chunk_key :: uint64
  slice_offset :: int
  slice_length :: int
  slice_index :: int

record Column =
  chunk_slices :: "ChunkSlice list"
  squeeze :: bool

record FlatTrajectory =
  columns :: "Column list"

record PrioritizedItem =
  key :: uint64
  priority :: float64
  flat_trajectory :: FlatTrajectory

record SampleInfo =
  item :: PrioritizedItem
  probability :: float64
  table_size :: int64

text \<open>\<open>'p\<close> is the compressed form of a tensor on the wire (a \<^verbatim>\<open>TensorProto\<close>).\<close>

record 'p ChunkData =
  chunk_key :: uint64
  tensors :: "'p list"
  delta_encoded :: bool

text \<open>A message field that is not set reads as the default message; \<^verbatim>\<open>has_data()\<close> tells
  whether \<^verbatim>\<open>data\<close> is set.\<close>

record 'p SampleStreamResponse =
  info :: SampleInfo
  data_opt :: "'p ChunkData option"

definition has_data :: "'p SampleStreamResponse \<Rightarrow> bool" where
  "has_data r = (data_opt r \<noteq> None)"

definition default_ChunkData :: "'p ChunkData" where
  "default_ChunkData = \<lparr>chunk_key = 0, tensors = [], delta_encoded = False\<rparr>"

definition data :: "'p SampleStreamResponse \<Rightarrow> 'p ChunkData" where
  "data r = (case data_opt r of None \<Rightarrow> default_ChunkData | Some d \<Rightarrow> d)"

text \<open>Modelled from the spec: \<^verbatim>\<open>internal::GetChunkKeys\<close> of
  \<^verbatim>\<open>reverb/cc/support/trajectory_util.h\<close>, which is not among the sources. It gives the chunk
  keys that the slices of the trajectory's columns reference.\<close>

definition GetChunkKeys :: "FlatTrajectory \<Rightarrow> uint64 list" where
  "GetChunkKeys traj = remdups (concat (map (\<lambda>c. map slice_chunk_key (chunk_slices c)) (columns traj)))"

subsection \<open>SampleIsDone\<close>

definition received_chunks :: "'p SampleStreamResponse list \<Rightarrow> uint64 set" where
  "received_chunks sample = set (map (\<lambda>r. chunk_key (data r)) (filter has_data sample))"

definition SampleIsDone :: "'p SampleStreamResponse list \<Rightarrow> bool" where
  "SampleIsDone sample =
     (if sample = [] then False
      else list_all (\<lambda>k. k \<in> received_chunks sample)
             (GetChunkKeys (flat_trajectory (item (info (hd sample))))))"

subsection \<open>The class Sample\<close>

text \<open>The members \<^verbatim>\<open>key_\<close>, \<^verbatim>\<open>probability_\<close>, \<^verbatim>\<open>table_size_\<close>, \<^verbatim>\<open>priority_\<close>,
  \<^verbatim>\<open>num_timesteps_\<close>, \<^verbatim>\<open>num_data_tensors_\<close>, \<^verbatim>\<open>chunks_\<close>, \<^verbatim>\<open>squeeze_columns_\<close>,
  \<^verbatim>\<open>next_timestep_index_\<close> and \<^verbatim>\<open>next_timestep_called_\<close>, without the trailing underscore
  (the first four with the prefix \<open>sample\<close>). \<^verbatim>\<open>num_timesteps_\<close> starts at 0 and only grows
  by dimension sizes.\<close>

record Sample =
  sample_key :: uint64
  sample_probability :: float64
  sample_table_size :: int64
  sample_priority :: float64
  num_timesteps :: nat
  num_data_tensors :: nat
  chunks :: "Tensor list list"
  squeeze_columns :: "bool list"
  next_timestep_index :: int
  next_timestep_called :: bool

text \<open>The loop of the constructor: \<^verbatim>\<open>num_timesteps_ += batches.front().dim_size(0)\<close> for
  every chunk group. \<^verbatim>\<open>front()\<close> of an empty vector is undefined.\<close>

fun front_dims :: "Tensor list list \<Rightarrow> nat \<Rightarrow> fault + nat" where
  "front_dims [] n = Inr n"
| "front_dims (batches # rest) n =
     (case batches of
        [] \<Rightarrow> Inl (UndefinedBehaviour ''front() of an empty vector'')
      | t # _ \<Rightarrow> (case dim_size0 t of Inl f \<Rightarrow> Inl f | Inr d \<Rightarrow> front_dims rest (n + d)))"

text \<open>\<^verbatim>\<open>Sample::Sample\<close>.\<close>

definition Sample_ctor ::
  "uint64 \<Rightarrow> float64 \<Rightarrow> int64 \<Rightarrow> float64 \<Rightarrow> Tensor list list \<Rightarrow> bool list \<Rightarrow> fault + Sample" where
  "Sample_ctor k prob tsize prio groups squeeze_cols =
     (if groups = [] then Inl (CheckFailed ''Must provide at least one chunk.'')
      else if hd groups = [] then Inl (CheckFailed ''Chunks must hold at least one tensor.'')
      else case front_dims groups 0 of
          Inl f \<Rightarrow> Inl f
        | Inr n \<Rightarrow> Inr \<lparr>sample_key = k, sample_probability = prob, sample_table_size = tsize, sample_priority = prio,
                       num_timesteps = n, num_data_tensors = length (hd groups),
                       chunks = groups, squeeze_columns = squeeze_cols,
                       next_timestep_index = 0, next_timestep_called = False\<rparr>)"

definition is_end_of_sample :: "Sample \<Rightarrow> bool" where
  "is_end_of_sample s = (chunks s = [])"

text \<open>The inner loop of \<^verbatim>\<open>is_composed_of_timesteps\<close>: the \<^verbatim>\<open>int length\<close> of column \<open>i\<close>,
  summed over the chunk groups. \<^verbatim>\<open>unpacked_chunk[i]\<close> past the end of a group is undefined.\<close>

fun column_length :: "Tensor list list \<Rightarrow> nat \<Rightarrow> 32 word \<Rightarrow> fault + 32 word" where
  "column_length [] i len = Inr len"
| "column_length (unpacked_chunk # rest) i len =
     (if length unpacked_chunk \<le> i
        then Inl (UndefinedBehaviour ''index past the end of a vector'')
      else case dim_size0 (unpacked_chunk ! i) of
          Inl f \<Rightarrow> Inl f
        | Inr d \<Rightarrow> column_length rest i (len + of_nat d))"

fun column_lengths :: "Tensor list list \<Rightarrow> nat list \<Rightarrow> fault + 32 word list" where
  "column_lengths groups [] = Inr []"
| "column_lengths groups (i # is) =
     (case column_length groups i 0 of
        Inl f \<Rightarrow> Inl f
      | Inr len \<Rightarrow> (case column_lengths groups is of Inl f \<Rightarrow> Inl f | Inr lens \<Rightarrow> Inr (len # lens)))"

definition is_composed_of_timesteps :: "Sample \<Rightarrow> fault + bool" where
  "is_composed_of_timesteps s =
     (case chunks s of
        [] \<Rightarrow> Inl (UndefinedBehaviour ''front() of an empty deque'')
      | first # _ \<Rightarrow>
          (case column_lengths (chunks s) [0 ..< length first] of
             Inl f \<Rightarrow> Inl f
           | Inr lens \<Rightarrow> Inr (list_all (\<lambda>a. a = hd lens) lens)))"

text \<open>The four metadata tensors, as scalars and as vectors of a given length.\<close>

definition metadata_scalars :: "Sample \<Rightarrow> Tensor list" where
  "metadata_scalars s =
     [ScalarTensor DT_UINT64 (sample_key s), ScalarTensor DT_DOUBLE (sample_probability s),
      ScalarTensor DT_INT64 (sample_table_size s), ScalarTensor DT_DOUBLE (sample_priority s)]"

definition metadata_vectors :: "Sample \<Rightarrow> Tensor list" where
  "metadata_vectors s =
     [InitializeTensor DT_UINT64 (sample_key s) (num_timesteps s),
      InitializeTensor DT_DOUBLE (sample_probability s) (num_timesteps s),
      InitializeTensor DT_INT64 (sample_table_size s) (num_timesteps s),
      InitializeTensor DT_DOUBLE (sample_priority s) (num_timesteps s)]"

fun sub_slices :: "Tensor list \<Rightarrow> int \<Rightarrow> fault + Tensor list" where
  "sub_slices [] i = Inr []"
| "sub_slices (t # ts) i =
     (case SubSlice t i of
        Inl f \<Rightarrow> Inl f
      | Inr sl \<Rightarrow> (case sub_slices ts i of Inl f \<Rightarrow> Inl f | Inr sls \<Rightarrow> Inr (DeepCopy sl # sls)))"

text \<open>\<^verbatim>\<open>Sample::GetNextTimestep\<close>: the next row and the sample after it.\<close>

definition Sample_GetNextTimestep :: "Sample \<Rightarrow> fault + (Tensor list \<times> Sample)" where
  "Sample_GetNextTimestep s =
     (if is_end_of_sample s then Inl (CheckFailed ''!is_end_of_sample()'')
      else case is_composed_of_timesteps s of
          Inl f \<Rightarrow> Inl f
        | Inr False \<Rightarrow> Inl (CheckFailed ''is_composed_of_timesteps()'')
        | Inr True \<Rightarrow>
           (case sub_slices (hd (chunks s)) (next_timestep_index s) of
              Inl f \<Rightarrow> Inl f
            | Inr cols \<Rightarrow>
               (case hd (chunks s) of
                  [] \<Rightarrow> Inl (UndefinedBehaviour ''front() of an empty vector'')
                | t # _ \<Rightarrow>
                   (case dim_size0 t of
                      Inl f \<Rightarrow> Inl f
                    | Inr d \<Rightarrow>
                        Inr (metadata_scalars s @ cols,
                             if next_timestep_index s + 1 = int d
                             then s\<lparr>chunks := tl (chunks s), next_timestep_index := 0,
                                    next_timestep_called := True\<rparr>
                             else s\<lparr>next_timestep_index := next_timestep_index s + 1,
                                    next_timestep_called := True\<rparr>)))))"

text \<open>"Extract all chunks": the tensors of every group are appended, in order, to the lists
  of \<^verbatim>\<open>data_tensors\<close>. The iterator \<^verbatim>\<open>it_to\<close> past the end of \<^verbatim>\<open>data_tensors\<close> is
  undefined.\<close>

fun push_columns :: "Tensor list \<Rightarrow> Tensor list list \<Rightarrow> fault + Tensor list list" where
  "push_columns [] data_tensors = Inr data_tensors"
| "push_columns (batch # rest) [] = Inl (UndefinedBehaviour ''iterator past the end of a vector'')"
| "push_columns (batch # rest) (col # cols) =
     (case push_columns rest cols of Inl f \<Rightarrow> Inl f | Inr cols' \<Rightarrow> Inr ((col @ [batch]) # cols'))"

fun extract_chunks :: "Tensor list list \<Rightarrow> Tensor list list \<Rightarrow> fault + Tensor list list" where
  "extract_chunks [] data_tensors = Inr data_tensors"
| "extract_chunks (batches # rest) data_tensors =
     (case push_columns batches data_tensors of
        Inl f \<Rightarrow> Inl f
      | Inr data_tensors' \<Rightarrow> extract_chunks rest data_tensors')"

text \<open>"Concatenate all chunks": the first failure is returned.\<close>

fun concat_columns :: "Tensor list list \<Rightarrow> Tensor list result" where
  "concat_columns [] = Ok []"
| "concat_columns (col # rest) =
     (case Concat col of
        Fault f \<Rightarrow> Fault f
      | Error e \<Rightarrow> Error e
      | Ok t \<Rightarrow> (case concat_columns rest of
                  Fault f \<Rightarrow> Fault f | Error e \<Rightarrow> Error e | Ok ts \<Rightarrow> Ok (t # ts)))"

text \<open>\<^verbatim>\<open>Sample::AsBatchedTimesteps(data)\<close>: the status, the sample afterwards and the value
  of \<^verbatim>\<open>*data\<close> afterwards.\<close>

definition AsBatchedTimesteps :: "Sample \<Rightarrow> Tensor list \<Rightarrow> fault + (Status \<times> Sample \<times> Tensor list)" where
  "AsBatchedTimesteps s data_out =
     (if next_timestep_called s
      then Inr (DataLossError ''Sample::AsBatchedTimesteps: Some time steps have been lost.'',
                s, data_out)
      else case is_composed_of_timesteps s of
          Inl f \<Rightarrow> Inl f
        | Inr False \<Rightarrow>
            Inr (FailedPreconditionError
                   ''Sample::AsBatchedTimesteps when trajectory cannot be decomposed into timesteps.'',
                 s, data_out)
        | Inr True \<Rightarrow>
           (case extract_chunks (chunks s) (replicate (num_data_tensors s) []) of
              Inl f \<Rightarrow> Inl f
            | Inr data_tensors \<Rightarrow>
               (case concat_columns data_tensors of
                  Fault f \<Rightarrow> Inl f
                | Error e \<Rightarrow> Inr (e, s\<lparr>chunks := []\<rparr>, data_out)
                | Ok cols \<Rightarrow> Inr (OkStatus, s\<lparr>chunks := []\<rparr>, metadata_vectors s @ cols))))"

text \<open>A default-constructed \<^verbatim>\<open>tensorflow::Tensor\<close>: a float vector without elements.\<close>

definition default_Tensor :: Tensor where
  "default_Tensor = \<lparr>dtype = DT_FLOAT, shape = [0], flat = []\<rparr>"

text \<open>"Remove batch dimension from squeezed columns": the loop over \<^verbatim>\<open>squeeze_columns_\<close>,
  at index \<open>i\<close>. \<^verbatim>\<open>batch_dim\<close> is an \<^verbatim>\<open>int\<close>.\<close>

fun squeeze_loop :: "bool list \<Rightarrow> nat \<Rightarrow> Tensor list \<Rightarrow> Tensor list result" where
  "squeeze_loop [] i sequences = Ok sequences"
| "squeeze_loop (sq # rest) i sequences =
     (if \<not> sq then squeeze_loop rest (i + 1) sequences
      else if length sequences \<le> i + 4
        then Fault (UndefinedBehaviour ''index past the end of a vector'')
      else case dim_size0 (sequences ! (i + 4)) of
          Inl f \<Rightarrow> Fault f
        | Inr d \<Rightarrow>
            if (of_nat d :: 32 word) \<noteq> 1
            then Error (InternalError (''Tried to squeeze column with batch size '' @
                          StrCatInt (sint (of_nat d :: 32 word)) @ ''.''))
            else (case SubSlice (sequences ! (i + 4)) 0 of
                    Inl f \<Rightarrow> Fault f
                  | Inr t \<Rightarrow> squeeze_loop rest (i + 1) (sequences[i + 4 := DeepCopy t])))"

text \<open>The data columns of \<^verbatim>\<open>Sample::AsTrajectory\<close> before squeezing: moved as they are when
  there is exactly one chunk group, concatenated otherwise.\<close>

definition trajectory_columns :: "Sample \<Rightarrow> Tensor list result" where
  "trajectory_columns s =
     (if length (chunks s) = 1
      then (if num_data_tensors s < length (hd (chunks s))
            then Fault (UndefinedBehaviour ''index past the end of a vector'')
            else Ok (hd (chunks s) @
                     replicate (num_data_tensors s - length (hd (chunks s))) default_Tensor))
      else case extract_chunks (chunks s) (replicate (num_data_tensors s) []) of
          Inl f \<Rightarrow> Fault f
        | Inr data_tensors \<Rightarrow> concat_columns data_tensors)"

text \<open>\<^verbatim>\<open>Sample::AsTrajectory(data)\<close>.\<close>

definition AsTrajectory :: "Sample \<Rightarrow> Tensor list \<Rightarrow> fault + (Status \<times> Sample \<times> Tensor list)" where
  "AsTrajectory s data_out =
     (if next_timestep_called s
      then Inr (DataLossError ''Sample::AsBatchedTimesteps: Some time steps have been lost.'',
                s, data_out)
      else case trajectory_columns s of
          Fault f \<Rightarrow> Inl f
        | Error e \<Rightarrow> Inr (e, s\<lparr>chunks := []\<rparr>, data_out)
        | Ok cols \<Rightarrow>
           (case squeeze_loop (squeeze_columns s) 0 (metadata_scalars s @ cols) of
              Fault f \<Rightarrow> Inl f
            | Error e \<Rightarrow> Inr (e, s\<lparr>chunks := []\<rparr>, data_out)
            | Ok sequences \<Rightarrow> Inr (OkStatus, s\<lparr>chunks := []\<rparr>, sequences)))"

subsection \<open>The queue of samples\<close>

text \<open>Modelled from the spec: \<^verbatim>\<open>internal::Queue\<close> of \<^verbatim>\<open>reverb/cc/support/queue.h\<close>, which is
  not among the sources. \<open>push\<close> blocks until capacity is available or the queue is closed and
  returns false iff the queue is closed; \<open>pop\<close> blocks until an item is available or the queue is
  closed and empty, and returns false in the latter case; \<open>close\<close> is idempotent. The order of
  the pushes is kept. A call that blocks in the given state is \<open>Blocks\<close>: here no other thread
  runs in between.\<close>

record 'a Queue =
  q_items :: "'a list"
  q_closed :: bool
  q_capacity :: nat

datatype 'a run = Blocks | Stops fault | Returns 'a

definition Queue_Push :: "'a Queue \<Rightarrow> 'a \<Rightarrow> (bool \<times> 'a Queue) run" where
  "Queue_Push q x =
     (if q_closed q then Returns (False, q)
      else if length (q_items q) < q_capacity q then Returns (True, q\<lparr>q_items := q_items q @ [x]\<rparr>)
      else Blocks)"

definition Queue_Pop :: "'a Queue \<Rightarrow> ('a option \<times> 'a Queue) run" where
  "Queue_Pop q =
     (case q_items q of
        x # rest \<Rightarrow> Returns (Some x, q\<lparr>q_items := rest\<rparr>)
      | [] \<Rightarrow> if q_closed q then Returns (None, q) else Blocks)"

definition Queue_Close :: "'a Queue \<Rightarrow> 'a Queue" where
  "Queue_Close q = q\<lparr>q_closed := True\<rparr>"

subsection \<open>The class Sampler\<close>

text \<open>A \<^verbatim>\<open>PartialTensorShape\<close> of the tensor library: the rank may be unknown, and so may
  each dimension.\<close>

record DtypeAndShape =
  spec_dtype :: DataType
  spec_shape :: "nat option list option"

text \<open>\<^verbatim>\<open>PartialTensorShape::IsCompatibleWith\<close> of the tensor library, against a fully known
  shape: an unknown rank fits every shape; otherwise the ranks are equal and every known
  dimension is equal.\<close>

definition IsCompatibleWith :: "nat option list option \<Rightarrow> nat list \<Rightarrow> bool" where
  "IsCompatibleWith pshape shp =
     (case pshape of
        None \<Rightarrow> True
      | Some ds \<Rightarrow> list_all2 (\<lambda>d n. d = None \<or> d = Some n) ds shp)"

text \<open>The members of the sampler that its methods read and write, without the trailing
  underscore: \<^verbatim>\<open>table_\<close>, \<^verbatim>\<open>max_samples_\<close>, \<^verbatim>\<open>max_samples_per_stream_\<close>, \<^verbatim>\<open>requested_\<close>,
  \<^verbatim>\<open>returned_\<close>, \<^verbatim>\<open>closed_\<close>, \<^verbatim>\<open>worker_status_\<close>, \<^verbatim>\<open>samples_\<close>, \<^verbatim>\<open>active_sample_\<close>
  (\<open>None\<close> is the null pointer) and \<^verbatim>\<open>dtypes_and_shapes_\<close> (\<open>None\<close> when there is no signature).\<close>

record Sampler =
  table_name :: string
  max_samples :: int
  max_samples_per_stream :: int
  requested :: int
  returned :: int
  closed :: bool
  worker_status :: Status
  samples :: "Sample Queue"
  active_sample :: "Sample option"
  dtypes_and_shapes :: "DtypeAndShape list option"

datatype ValidationMode = kTimestep | kBatchedTimestep | kTrajectory

text \<open>The body of the loop of \<^verbatim>\<open>ValidateAgainstOutputSpec\<close> at index \<open>i\<close>: \<open>None\<close> when the
  tensor passes. The messages go on with renderings of the signatures by helpers that are not
  among the sources; their fixed beginning is kept.\<close>

definition validate_tensor :: "string \<Rightarrow> DtypeAndShape list \<Rightarrow> Tensor list \<Rightarrow> ValidationMode \<Rightarrow> nat \<Rightarrow> Status option" where
  "validate_tensor tbl specs data_in mode i =
     (if mode = kBatchedTimestep \<and> dims (data_in ! i) = 0
      then Some (InvalidArgumentError (''Invalid tensor shape received from table '' @ [CHR 0x27] @ tbl @
             [CHR 0x27] @ ''.  time_step is false but data['' @ StrCatInt (int i) @
             ''] has scalar shape (no time dimension).''))
      else let shape_ptr = (if mode = kTimestep \<or> mode = kTrajectory then shape (data_in ! i)
                            else tl (shape (data_in ! i)))
           in if dtype (data_in ! i) \<noteq> spec_dtype (specs ! i) \<or>
                 \<not> IsCompatibleWith (spec_shape (specs ! i)) shape_ptr
              then Some (InvalidArgumentError (''Received incompatible tensor at flattened index '' @
                     StrCatInt (int i) @ '' from table '' @ [CHR 0x27] @ tbl @ [CHR 0x27] @ ''.''))
              else None)"

fun validate_loop :: "string \<Rightarrow> DtypeAndShape list \<Rightarrow> Tensor list \<Rightarrow> ValidationMode \<Rightarrow> nat list \<Rightarrow> Status" where
  "validate_loop tbl specs data_in mode [] = OkStatus"
| "validate_loop tbl specs data_in mode (i # rest) =
     (case validate_tensor tbl specs data_in mode i of
        Some e \<Rightarrow> e
      | None \<Rightarrow> validate_loop tbl specs data_in mode rest)"

text \<open>\<^verbatim>\<open>Sampler::ValidateAgainstOutputSpec\<close>. The loop runs over the indices
  \<open>4 \<le> i < data.size()\<close>, where the signature has an entry since the sizes are equal.\<close>

definition ValidateAgainstOutputSpec :: "Sampler \<Rightarrow> Tensor list \<Rightarrow> ValidationMode \<Rightarrow> Status" where
  "ValidateAgainstOutputSpec s data_in mode =
     (case dtypes_and_shapes s of
        None \<Rightarrow> OkStatus
      | Some specs \<Rightarrow>
          if length data_in \<noteq> length specs
          then InvalidArgumentError (''Inconsistent number of tensors received from table '' @
                 [CHR 0x27] @ table_name s @ [CHR 0x27] @ ''.  Specification has '' @
                 StrCatInt (int (length specs)) @
                 '' tensors, but data coming from the table shows '' @
                 StrCatInt (int (length data_in)) @ '' tensors.'')
          else validate_loop (table_name s) specs data_in mode [4 ..< length data_in])"

definition should_stop_workers :: "Sampler \<Rightarrow> bool" where
  "should_stop_workers s = (closed s \<or> returned s = max_samples s \<or> \<not> ok (worker_status s))"

text \<open>\<^verbatim>\<open>Sampler::Close\<close>, on the members of the sampler. (It also cancels the workers, whose
  \<^verbatim>\<open>closed_\<close> flags are their own, and joins their threads.)\<close>

definition Close :: "Sampler \<Rightarrow> Sampler" where
  "Close s = (if closed s then s else s\<lparr>closed := True, samples := Queue_Close (samples s)\<rparr>)"

text \<open>\<^verbatim>\<open>Sampler::PopNextSample(sample)\<close>: the status, the sample that was popped (if any) and the
  sampler afterwards.\<close>

definition PopNextSample :: "Sampler \<Rightarrow> (Status \<times> Sample option \<times> Sampler) run" where
  "PopNextSample s =
     (case Queue_Pop (samples s) of
        Blocks \<Rightarrow> Blocks
      | Stops f \<Rightarrow> Stops f
      | Returns (Some x, q) \<Rightarrow> Returns (OkStatus, Some x, s\<lparr>samples := q\<rparr>)
      | Returns (None, q) \<Rightarrow>
          Returns (if returned s = max_samples s
                     then OutOfRangeError ''`max_samples` already returned.''
                   else if closed s then CancelledError ''Sampler has been cancelled.''
                   else worker_status s,
                   None, s\<lparr>samples := q\<rparr>))"

text \<open>\<^verbatim>\<open>Sampler::MaybeSampleNext\<close>: pops into \<^verbatim>\<open>active_sample_\<close> unless the active sample
  has rows left.\<close>

definition MaybeSampleNext :: "Sampler \<Rightarrow> (Status \<times> Sampler) run" where
  "MaybeSampleNext s =
     (if (case active_sample s of None \<Rightarrow> False | Some a \<Rightarrow> \<not> is_end_of_sample a)
      then Returns (OkStatus, s)
      else case PopNextSample s of
          Blocks \<Rightarrow> Blocks
        | Stops f \<Rightarrow> Stops f
        | Returns (st, Some x, s') \<Rightarrow> Returns (st, s'\<lparr>active_sample := Some x\<rparr>)
        | Returns (st, None, s') \<Rightarrow> Returns (st, s'))"

text \<open>\<^verbatim>\<open>if (++returned_ == max_samples_) samples_.Close();\<close>\<close>

definition count_returned :: "Sampler \<Rightarrow> Sampler" where
  "count_returned s =
     (let s' = s\<lparr>returned := returned s + 1\<rparr>
      in if returned s' = max_samples s' then s'\<lparr>samples := Queue_Close (samples s')\<rparr> else s')"

text \<open>\<^verbatim>\<open>Sampler::GetNextTimestep(data, end_of_sequence)\<close>: the status, the sampler afterwards
  and the values of \<^verbatim>\<open>*data\<close> and \<^verbatim>\<open>*end_of_sequence\<close> afterwards (\<open>None\<close> for the null
  pointer).\<close>

definition GetNextTimestep ::
  "Sampler \<Rightarrow> Tensor list \<Rightarrow> bool option \<Rightarrow> (Status \<times> Sampler \<times> Tensor list \<times> bool option) run" where
  "GetNextTimestep s data_out end_of_sequence =
     (case MaybeSampleNext s of
        Blocks \<Rightarrow> Blocks
      | Stops f \<Rightarrow> Stops f
      | Returns (st, s1) \<Rightarrow>
          if \<not> ok st then Returns (st, s1, data_out, end_of_sequence)
          else (case active_sample s1 of
             None \<Rightarrow> Stops (UndefinedBehaviour ''null pointer dereferenced'')
           | Some a \<Rightarrow>
              (case is_composed_of_timesteps a of
                 Inl f \<Rightarrow> Stops f
               | Inr False \<Rightarrow>
                   Returns (InvalidArgumentError
                              ''Sampled trajectory cannot be decomposed into timesteps.'',
                            s1, data_out, end_of_sequence)
               | Inr True \<Rightarrow>
                  (case Sample_GetNextTimestep a of
                     Inl f \<Rightarrow> Stops f
                   | Inr (row, a') \<Rightarrow>
                       let s2 = s1\<lparr>active_sample := Some a'\<rparr>;
                           st2 = ValidateAgainstOutputSpec s2 row kTimestep
                       in if \<not> ok st2 then Returns (st2, s2, row, end_of_sequence)
                          else Returns (OkStatus,
                                 if is_end_of_sample a' then count_returned s2 else s2,
                                 row,
                                 if end_of_sequence \<noteq> None then Some (is_end_of_sample a')
                                 else None)))))"

text \<open>\<^verbatim>\<open>Sampler::GetNextSample(data)\<close> and \<^verbatim>\<open>Sampler::GetNextTrajectory(data)\<close> differ in
  the materialisation and in the validation mode only.\<close>

definition pop_and_materialize ::
  "(Sample \<Rightarrow> Tensor list \<Rightarrow> fault + (Status \<times> Sample \<times> Tensor list)) \<Rightarrow> ValidationMode \<Rightarrow>
   Sampler \<Rightarrow> Tensor list \<Rightarrow> (Status \<times> Sampler \<times> Tensor list) run" where
  "pop_and_materialize materialize mode s data_out =
     (case PopNextSample s of
        Blocks \<Rightarrow> Blocks
      | Stops f \<Rightarrow> Stops f
      | Returns (st, popped, s1) \<Rightarrow>
          if \<not> ok st then Returns (st, s1, data_out)
          else (case popped of
             None \<Rightarrow> Stops (UndefinedBehaviour ''null pointer dereferenced'')
           | Some sample \<Rightarrow>
              (case materialize sample data_out of
                 Inl f \<Rightarrow> Stops f
               | Inr (st1, sample', data1) \<Rightarrow>
                   if \<not> ok st1 then Returns (st1, s1, data1)
                   else let st2 = ValidateAgainstOutputSpec s1 data1 mode
                        in if \<not> ok st2 then Returns (st2, s1, data1)
                           else Returns (OkStatus, count_returned s1, data1))))"

definition GetNextSample :: "Sampler \<Rightarrow> Tensor list \<Rightarrow> (Status \<times> Sampler \<times> Tensor list) run" where
  "GetNextSample = pop_and_materialize AsBatchedTimesteps kBatchedTimestep"

definition GetNextTrajectory :: "Sampler \<Rightarrow> Tensor list \<Rightarrow> (Status \<times> Sampler \<times> Tensor list) run" where
  "GetNextTrajectory = pop_and_materialize AsTrajectory kTrajectory"

text \<open>\<^verbatim>\<open>Sampler::RunWorker\<close>, one turn of its loop in two parts, before and after the call of
  the worker's \<^verbatim>\<open>FetchSamples\<close> (during which the lock is not held). The first part waits
  for \<^verbatim>\<open>trigger\<close>; it gives \<open>None\<close> when the worker returns and the quota
  \<^verbatim>\<open>samples_to_stream\<close> otherwise.\<close>

definition RunWorker_begin :: "Sampler \<Rightarrow> (int option \<times> Sampler) run" where
  "RunWorker_begin s =
     (if \<not> (should_stop_workers s \<or> requested s < max_samples s) then Blocks
      else if should_stop_workers s then Returns (None, s)
      else let samples_to_stream = min (max_samples_per_stream s) (max_samples s - requested s)
           in Returns (Some samples_to_stream, s\<lparr>requested := requested s + samples_to_stream\<rparr>))"

text \<open>The second part takes the quota and the pair that \<^verbatim>\<open>FetchSamples\<close> returned; the
  boolean tells whether the loop goes on (\<open>False\<close>: \<^verbatim>\<open>return\<close>).\<close>

definition RunWorker_end :: "Sampler \<Rightarrow> int \<Rightarrow> int \<times> Status \<Rightarrow> bool \<times> Sampler" where
  "RunWorker_end s samples_to_stream result =
     (let s1 = s\<lparr>requested := requested s - (samples_to_stream - fst result)\<rparr>
      in if ok (worker_status s1) \<and> \<not> ok (snd result) \<and> \<not> IsUnavailable (snd result)
         then (False, s1\<lparr>worker_status := snd result, samples := Queue_Close (samples s1)\<rparr>)
         else (True, s1))"

text \<open>What the threads of a sampler do to its members, one atomic step at a time: a worker
  reserves a quota, a worker pushes a sample, a worker accounts for a fetch that returned, the
  consumer calls one of the three getters, anyone calls \<^verbatim>\<open>Close\<close>.\<close>

inductive sampler_step :: "Sampler \<Rightarrow> Sampler \<Rightarrow> bool" where
  step_begin: "RunWorker_begin s = Returns (r, s') \<Longrightarrow> sampler_step s s'"
| step_push: "Queue_Push (samples s) x = Returns (b, q) \<Longrightarrow> sampler_step s (s\<lparr>samples := q\<rparr>)"
| step_end: "RunWorker_end s n result = (b, s') \<Longrightarrow> sampler_step s s'"
| step_timestep: "GetNextTimestep s d e = Returns (st, s', d', e') \<Longrightarrow> sampler_step s s'"
| step_sample: "GetNextSample s d = Returns (st, s', d') \<Longrightarrow> sampler_step s s'"
| step_trajectory: "GetNextTrajectory s d = Returns (st, s', d') \<Longrightarrow> sampler_step s s'"
| step_close: "sampler_step s (Close s)"

subsection \<open>Assembling a sample from the responses of a stream\<close>

text \<open>\<^verbatim>\<open>DecompressTensorFromProto\<close> and \<^verbatim>\<open>DeltaEncode(batch, /*encode=*/false)\<close> of
  \<^verbatim>\<open>reverb/cc/tensor_compression.h\<close> are not among the sources: they are the parameters
  \<open>decompress\<close> and \<open>delta_decode\<close>. One column of a response, decoded:\<close>

definition decode_column :: "('p \<Rightarrow> Tensor) \<Rightarrow> (Tensor \<Rightarrow> Tensor) \<Rightarrow> bool \<Rightarrow> 'p \<Rightarrow> Tensor" where
  "decode_column decompress delta_decode delta chunk =
     (let batch = decompress chunk in if delta then delta_decode batch else batch)"

text \<open>The inner loop of \<^verbatim>\<open>TimestepTrajectoryAsSample\<close>. It takes the tensors of the response
  from the last to the first (\<^verbatim>\<open>ReleaseLast\<close>), so the list here is the reversed list of the
  tensors; \<^verbatim>\<open>batches\<close> is filled from its last index down and comes out in the order of the
  response. It gives \<^verbatim>\<open>batches\<close> and \<^verbatim>\<open>batch_size\<close>.\<close>

fun convert_columns ::
  "('p \<Rightarrow> Tensor) \<Rightarrow> (Tensor \<Rightarrow> Tensor) \<Rightarrow> bool \<Rightarrow> 'p list \<Rightarrow> int \<Rightarrow> int \<Rightarrow> int \<Rightarrow>
   (Tensor list \<times> int) result" where
  "convert_columns decompress delta_decode delta [] offset remaining batch_size =
     Ok ([], batch_size)"
| "convert_columns decompress delta_decode delta (chunk # rest) offset remaining batch_size =
     (let batch = decode_column decompress delta_decode delta chunk in
      case dim_size0 batch of
        Inl f \<Rightarrow> Fault f
      | Inr d \<Rightarrow>
          if \<not> batch_size < 0 \<and> batch_size \<noteq> int d
          then Error (InternalError
                 (''Chunks of the same response must have identical batch size, but '' @
                  ''first chunk has batch size '' @ StrCatInt batch_size @
                  '' while the current chunk has batch size '' @ StrCatInt (int d)))
          else
            let batch_size' = (if batch_size < 0 then int d else batch_size) in
            (case Slice batch offset (min (offset + remaining) batch_size') of
               Inl f \<Rightarrow> Fault f
             | Inr sl \<Rightarrow>
                (case convert_columns decompress delta_decode delta rest offset remaining
                        batch_size' of
                   Fault f \<Rightarrow> Fault f
                 | Error e \<Rightarrow> Error e
                 | Ok (batches, bs) \<Rightarrow> Ok (batches @ [DeepCopy sl], bs))))"

text \<open>The loop over the responses: the chunk groups and the value of \<^verbatim>\<open>remaining\<close> after the
  last response.\<close>

fun timestep_loop ::
  "('p \<Rightarrow> Tensor) \<Rightarrow> (Tensor \<Rightarrow> Tensor) \<Rightarrow> 'p SampleStreamResponse list \<Rightarrow> int \<Rightarrow> int \<Rightarrow>
   (Tensor list list \<times> int) result" where
  "timestep_loop decompress delta_decode [] offset remaining = Ok ([], remaining)"
| "timestep_loop decompress delta_decode (response # rest) offset remaining =
     (if \<not> 0 < remaining then Fault (CheckFailed ''remaining > 0'')
      else case convert_columns decompress delta_decode (delta_encoded (data response))
                  (rev (tensors (data response))) offset remaining (- 1) of
          Fault f \<Rightarrow> Fault f
        | Error e \<Rightarrow> Error e
        | Ok (batches, batch_size) \<Rightarrow>
           (case timestep_loop decompress delta_decode rest 0
                   (remaining - min remaining (batch_size - offset)) of
              Fault f \<Rightarrow> Fault f
            | Error e \<Rightarrow> Error e
            | Ok (groups, r) \<Rightarrow> Ok (batches # groups, r)))"

text \<open>\<^verbatim>\<open>TimestepTrajectoryAsSample(responses, sample)\<close>. \<^verbatim>\<open>internal::TimestepTrajectoryOffset\<close>
  and \<^verbatim>\<open>internal::TimestepTrajectoryLength\<close> of \<^verbatim>\<open>reverb/cc/support/trajectory_util.h\<close> are
  not among the sources: they are the parameters \<open>trajectory_offset\<close> and
  \<open>trajectory_length\<close>. Both count rows of chunks.\<close>

definition TimestepTrajectoryAsSample ::
  "('p \<Rightarrow> Tensor) \<Rightarrow> (Tensor \<Rightarrow> Tensor) \<Rightarrow> (FlatTrajectory \<Rightarrow> int) \<Rightarrow> (FlatTrajectory \<Rightarrow> int) \<Rightarrow>
   'p SampleStreamResponse list \<Rightarrow> Sample result" where
  "TimestepTrajectoryAsSample decompress delta_decode trajectory_offset trajectory_length responses =
     (case responses of
        [] \<Rightarrow> Fault (UndefinedBehaviour ''front() of an empty vector'')
      | first # _ \<Rightarrow>
          let inf = info first; traj = flat_trajectory (item inf) in
          (case timestep_loop decompress delta_decode responses (trajectory_offset traj)
                  (trajectory_length traj) of
             Fault f \<Rightarrow> Fault f
           | Error e \<Rightarrow> Error e
           | Ok (groups, remaining) \<Rightarrow>
               if remaining \<noteq> 0 then Fault (CheckFailed ''remaining == 0'')
               else (case Sample_ctor (key (item inf)) (probability inf) (table_size inf)
                            (priority (item inf)) groups (map squeeze (columns traj)) of
                       Inl f \<Rightarrow> Fault f
                     | Inr s \<Rightarrow> Ok s)))"

text \<open>The claim's account of the loop, with the update of \<open>remaining\<close> that the loop makes: for
  responses whose columns have the leading dimensions \<open>Bs\<close>, the rows \<open>start \<le> i < limit\<close> that
  are emitted for each response, and \<open>remaining\<close> after the last one.\<close>

fun response_spans :: "nat list \<Rightarrow> int \<Rightarrow> int \<Rightarrow> (int \<times> int) list" where
  "response_spans [] offset remaining = []"
| "response_spans (B # Bs) offset remaining =
     (offset, min (offset + remaining) (int B)) #
     response_spans Bs 0 (remaining - min remaining (int B - offset))"

fun remaining_after :: "nat list \<Rightarrow> int \<Rightarrow> int \<Rightarrow> int" where
  "remaining_after [] offset remaining = remaining"
| "remaining_after (B # Bs) offset remaining =
     remaining_after Bs 0 (remaining - min remaining (int B - offset))"

text \<open>A response whose columns, decoded, all have the leading dimension \<open>B\<close>; and a chunk
  group that holds the rows \<open>start \<le> i < limit\<close> of each column of a response.\<close>

definition columns_have_dim ::
  "('p \<Rightarrow> Tensor) \<Rightarrow> (Tensor \<Rightarrow> Tensor) \<Rightarrow> 'p SampleStreamResponse \<Rightarrow> nat \<Rightarrow> bool" where
  "columns_have_dim decompress delta_decode response B =
     (tensors (data response) \<noteq> [] \<and>
      list_all (\<lambda>p. dim_size0 (decode_column decompress delta_decode (delta_encoded (data response)) p)
                    = Inr B) (tensors (data response)))"

definition group_is_slice ::
  "('p \<Rightarrow> Tensor) \<Rightarrow> (Tensor \<Rightarrow> Tensor) \<Rightarrow> 'p SampleStreamResponse \<Rightarrow> int \<times> int \<Rightarrow> Tensor list \<Rightarrow> bool" where
  "group_is_slice decompress delta_decode response span batches =
     list_all2 (\<lambda>p t. Slice (decode_column decompress delta_decode (delta_encoded (data response)) p)
                         (fst span) (snd span) = Inr t)
       (tensors (data response)) batches"

text \<open>For the examples: no compression, and a trajectory that starts at the offset of the
  first slice of its first column and is as long as the slices of that column together.\<close>

definition first_slice_offset :: "FlatTrajectory \<Rightarrow> int" where
  "first_slice_offset traj = slice_offset (hd (chunk_slices (hd (columns traj))))"

definition total_slice_length :: "FlatTrajectory \<Rightarrow> int" where
  "total_slice_length traj = sum_list (map slice_length (chunk_slices (hd (columns traj))))"

subsection \<open>The general assembly, from responses and from a sampled item\<close>

text \<open>\<^verbatim>\<open>internal::UnpackChunkColumnAndSlice(chunk, slice, &out)\<close> and
  \<^verbatim>\<open>internal::IsTimestepTrajectory\<close> of \<^verbatim>\<open>reverb/cc/support/trajectory_util.h\<close> are not among
  the sources: they are the parameters \<open>unpack\<close> and \<open>is_timestep\<close>.

  The map \<^verbatim>\<open>chunks\<close> of \<^verbatim>\<open>AsSample(responses, sample)\<close>: the chunk key of every response
  leads to the data that \<^verbatim>\<open>release_data()\<close> gives, which is the null pointer (\<open>None\<close>) for a
  response without data.\<close>

definition response_chunks :: "'p SampleStreamResponse list \<Rightarrow> (uint64 \<rightharpoonup> 'p ChunkData option)" where
  "response_chunks responses =
     fold (\<lambda>response m. m(chunk_key (data response) \<mapsto> data_opt response)) responses Map.empty"

fun unpack_slices ::
  "('p ChunkData \<Rightarrow> ChunkSlice \<Rightarrow> Tensor result) \<Rightarrow> (uint64 \<rightharpoonup> 'p ChunkData option) \<Rightarrow> uint64 \<Rightarrow>
   ChunkSlice list \<Rightarrow> Tensor list result" where
  "unpack_slices unpack chunk_of item_key [] = Ok []"
| "unpack_slices unpack chunk_of item_key (sl # rest) =
     (case chunk_of (slice_chunk_key sl) of
        None \<Rightarrow>
          Error (InternalError (''Chunk '' @ digits (unat (slice_chunk_key sl)) @
                   '' could not be found when unpacking item '' @ digits (unat item_key) @ ''.''))
      | Some None \<Rightarrow> Fault (UndefinedBehaviour ''null pointer dereferenced'')
      | Some (Some chunk) \<Rightarrow>
         (case unpack chunk sl of
            Fault f \<Rightarrow> Fault f
          | Error e \<Rightarrow> Error e
          | Ok t \<Rightarrow>
             (case unpack_slices unpack chunk_of item_key rest of
                Fault f \<Rightarrow> Fault f
              | Error e \<Rightarrow> Error e
              | Ok ts \<Rightarrow> Ok (t # ts))))"

fun unpack_columns ::
  "('p ChunkData \<Rightarrow> ChunkSlice \<Rightarrow> Tensor result) \<Rightarrow> (uint64 \<rightharpoonup> 'p ChunkData option) \<Rightarrow> uint64 \<Rightarrow>
   Column list \<Rightarrow> Tensor list result" where
  "unpack_columns unpack chunk_of item_key [] = Ok []"
| "unpack_columns unpack chunk_of item_key (column # rest) =
     (case unpack_slices unpack chunk_of item_key (chunk_slices column) of
        Fault f \<Rightarrow> Fault f
      | Error e \<Rightarrow> Error e
      | Ok unpacked_chunks \<Rightarrow>
         (case Concat unpacked_chunks of
            Fault f \<Rightarrow> Fault f
          | Error e \<Rightarrow> Error e
          | Ok t \<Rightarrow>
             (case unpack_columns unpack chunk_of item_key rest of
                Fault f \<Rightarrow> Fault f
              | Error e \<Rightarrow> Error e
              | Ok ts \<Rightarrow> Ok (t # ts))))"

text \<open>\<^verbatim>\<open>AsSample(std::vector<SampleStreamResponse> responses, std::unique_ptr<Sample>* sample)\<close>.\<close>

definition AsSample_responses ::
  "('p ChunkData \<Rightarrow> ChunkSlice \<Rightarrow> Tensor result) \<Rightarrow> (FlatTrajectory \<Rightarrow> bool) \<Rightarrow>
   ('p \<Rightarrow> Tensor) \<Rightarrow> (Tensor \<Rightarrow> Tensor) \<Rightarrow> (FlatTrajectory \<Rightarrow> int) \<Rightarrow> (FlatTrajectory \<Rightarrow> int) \<Rightarrow>
   'p SampleStreamResponse list \<Rightarrow> Sample result" where
  "AsSample_responses unpack is_timestep decompress delta_decode trajectory_offset trajectory_length
     responses =
     (case responses of
        [] \<Rightarrow> Fault (UndefinedBehaviour ''front() of an empty vector'')
      | first # _ \<Rightarrow>
          let inf = info first; traj = flat_trajectory (item inf) in
          if is_timestep traj
          then TimestepTrajectoryAsSample decompress delta_decode trajectory_offset
                 trajectory_length responses
          else (case unpack_columns unpack (response_chunks responses) (key (item inf))
                       (columns traj) of
                  Fault f \<Rightarrow> Fault f
                | Error e \<Rightarrow> Error e
                | Ok unpacked_columns \<Rightarrow>
                   (case Sample_ctor (key (item inf)) (probability inf) (table_size inf)
                            (priority (item inf)) [unpacked_columns] (map squeeze (columns traj)) of
                      Inl f \<Rightarrow> Fault f
                    | Inr s \<Rightarrow> Ok s)))"

text \<open>Modelled from the spec: \<^verbatim>\<open>Table::SampledItem\<close> of \<^verbatim>\<open>reverb/cc/table.h\<close>, which is not
  among the sources: the item, its probability, the size of the table and the chunks, shared
  with the chunk store. A chunk is kept as its data; its key is the \<open>chunk_key\<close> of the data.\<close>

record 'p SampledItem =
  sampled_item :: PrioritizedItem
  sampled_probability :: float64
  sampled_table_size :: int64
  sampled_chunks :: "'p ChunkData list"

text \<open>The map \<^verbatim>\<open>chunks\<close> of \<^verbatim>\<open>AsSample(sampled_item, sample)\<close>.\<close>

definition item_chunks :: "'p ChunkData list \<Rightarrow> (uint64 \<rightharpoonup> 'p ChunkData)" where
  "item_chunks cs = fold (\<lambda>chunk m. m(chunk_key chunk \<mapsto> chunk)) cs Map.empty"

text \<open>\<^verbatim>\<open>chunks[slice.chunk_key()]->data()\<close>: for a key that is not in the map,
  \<^verbatim>\<open>operator[]\<close> inserts the null pointer, which is then dereferenced.\<close>

fun unpack_item_slices ::
  "('p ChunkData \<Rightarrow> ChunkSlice \<Rightarrow> Tensor result) \<Rightarrow> (uint64 \<rightharpoonup> 'p ChunkData) \<Rightarrow>
   ChunkSlice list \<Rightarrow> Tensor list result" where
  "unpack_item_slices unpack chunk_of [] = Ok []"
| "unpack_item_slices unpack chunk_of (sl # rest) =
     (case chunk_of (slice_chunk_key sl) of
        None \<Rightarrow> Fault (UndefinedBehaviour ''null pointer dereferenced'')
      | Some chunk \<Rightarrow>
         (case unpack chunk sl of
            Fault f \<Rightarrow> Fault f
          | Error e \<Rightarrow> Error e
          | Ok t \<Rightarrow>
             (case unpack_item_slices unpack chunk_of rest of
                Fault f \<Rightarrow> Fault f
              | Error e \<Rightarrow> Error e
              | Ok ts \<Rightarrow> Ok (t # ts))))"

fun unpack_item_columns ::
  "('p ChunkData \<Rightarrow> ChunkSlice \<Rightarrow> Tensor result) \<Rightarrow> (uint64 \<rightharpoonup> 'p ChunkData) \<Rightarrow>
   Column list \<Rightarrow> Tensor list result" where
  "unpack_item_columns unpack chunk_of [] = Ok []"
| "unpack_item_columns unpack chunk_of (column # rest) =
     (case unpack_item_slices unpack chunk_of (chunk_slices column) of
        Fault f \<Rightarrow> Fault f
      | Error e \<Rightarrow> Error e
      | Ok unpacked_chunks \<Rightarrow>
         (case Concat unpacked_chunks of
            Fault f \<Rightarrow> Fault f
          | Error e \<Rightarrow> Error e
          | Ok t \<Rightarrow>
             (case unpack_item_columns unpack chunk_of rest of
                Fault f \<Rightarrow> Fault f
              | Error e \<Rightarrow> Error e
              | Ok ts \<Rightarrow> Ok (t # ts))))"

text \<open>\<^verbatim>\<open>AsSample(const Table::SampledItem& sampled_item, std::unique_ptr<Sample>* sample)\<close>.\<close>

definition AsSample_item ::
  "('p ChunkData \<Rightarrow> ChunkSlice \<Rightarrow> Tensor result) \<Rightarrow> 'p SampledItem \<Rightarrow> Sample result" where
  "AsSample_item unpack si =
     (case unpack_item_columns unpack (item_chunks (sampled_chunks si))
             (columns (flat_trajectory (sampled_item si))) of
        Fault f \<Rightarrow> Fault f
      | Error e \<Rightarrow> Error e
      | Ok flat_traj \<Rightarrow>
         (case Sample_ctor (key (sampled_item si)) (sampled_probability si)
                  (sampled_table_size si) (priority (sampled_item si)) [flat_traj]
                  (map squeeze (columns (flat_trajectory (sampled_item si)))) of
            Inl f \<Rightarrow> Fault f
          | Inr s \<Rightarrow> Ok s))"

subsection \<open>The local worker\<close>

text \<open>What one turn of the loop of \<^verbatim>\<open>LocalSamplerWorker::FetchSamples\<close> meets outside the
  worker: the value of \<^verbatim>\<open>closed_\<close> (which \<^verbatim>\<open>Cancel\<close> sets from another thread), the status
  and the items that \<^verbatim>\<open>Table::SampleFlexibleBatch\<close> returns, and whether
  \<^verbatim>\<open>absl::Now() < final_deadline\<close> after that call.\<close>

record 'p local_round =
  seen_closed :: bool
  table_status :: Status
  table_items :: "'p SampledItem list"
  before_final_deadline :: bool

text \<open>"Push sampled items to queue": \<^verbatim>\<open>num_samples_returned\<close> and the queue afterwards, and
  the status with which the function returns from inside the loop, if it does.\<close>

fun push_items ::
  "('p ChunkData \<Rightarrow> ChunkSlice \<Rightarrow> Tensor result) \<Rightarrow> 'p SampledItem list \<Rightarrow> Sample Queue \<Rightarrow> int \<Rightarrow>
   (Status option \<times> int \<times> Sample Queue) run" where
  "push_items unpack [] queue num_samples_returned = Returns (None, num_samples_returned, queue)"
| "push_items unpack (si # rest) queue num_samples_returned =
     (case AsSample_item unpack si of
        Fault f \<Rightarrow> Stops f
      | Error e \<Rightarrow> Returns (Some e, num_samples_returned, queue)
      | Ok sample \<Rightarrow>
         (case Queue_Push queue sample of
            Blocks \<Rightarrow> Blocks
          | Stops f \<Rightarrow> Stops f
          | Returns (False, queue') \<Rightarrow>
              Returns (Some (CancelledError ''`Close` called on Sampler''), num_samples_returned,
                       queue')
          | Returns (True, queue') \<Rightarrow> push_items unpack rest queue' (num_samples_returned + 1)))"

text \<open>\<^verbatim>\<open>LocalSamplerWorker::FetchSamples(queue, num_samples, rate_limiter_timeout)\<close>, from the
  value \<^verbatim>\<open>num_samples_returned\<close> on: the pair that it returns and the queue afterwards. The
  rounds are what the successive turns of the loop meet; when they are used up the worker
  waits for the table.\<close>

fun FetchSamples_local_loop ::
  "('p ChunkData \<Rightarrow> ChunkSlice \<Rightarrow> Tensor result) \<Rightarrow> 'p local_round list \<Rightarrow> Sample Queue \<Rightarrow> int \<Rightarrow> int \<Rightarrow>
   ((int \<times> Status) \<times> Sample Queue) run" where
  "FetchSamples_local_loop unpack rounds queue num_samples num_samples_returned =
     (if \<not> num_samples_returned < num_samples
      then (if num_samples_returned \<noteq> num_samples
            then Returns ((num_samples_returned,
                   InternalError (''num_samples_returned != num_samples ('' @
                     StrCatInt num_samples_returned @ '' vs. '' @ StrCatInt num_samples)), queue)
            else Returns ((num_samples_returned, OkStatus), queue))
      else case rounds of
          [] \<Rightarrow> Blocks
        | rnd # rest \<Rightarrow>
            if seen_closed rnd
            then Returns ((0, CancelledError ''`Close` called on Sampler.''), queue)
            else if IsDeadlineExceeded (table_status rnd) \<and> before_final_deadline rnd
            then FetchSamples_local_loop unpack rest queue num_samples num_samples_returned
            else if \<not> ok (table_status rnd)
            then Returns ((num_samples_returned, table_status rnd), queue)
            else (case push_items unpack (table_items rnd) queue num_samples_returned of
                    Blocks \<Rightarrow> Blocks
                  | Stops f \<Rightarrow> Stops f
                  | Returns (Some e, n, queue') \<Rightarrow> Returns ((n, e), queue')
                  | Returns (None, n, queue') \<Rightarrow>
                      FetchSamples_local_loop unpack rest queue' num_samples n))"

declare FetchSamples_local_loop.simps [simp del]

definition FetchSamples_local ::
  "('p ChunkData \<Rightarrow> ChunkSlice \<Rightarrow> Tensor result) \<Rightarrow> 'p local_round list \<Rightarrow> Sample Queue \<Rightarrow> int \<Rightarrow>
   ((int \<times> Status) \<times> Sample Queue) run" where
  "FetchSamples_local unpack rounds queue num_samples =
     FetchSamples_local_loop unpack rounds queue num_samples 0"


subsection \<open>The remote worker\<close>

text \<open>What \<^verbatim>\<open>GrpcSamplerWorker::FetchSamples\<close> meets on the stream that it opens (a
  \<^verbatim>\<open>grpc::ClientReaderWriterInterface\<close>): what the successive calls of \<^verbatim>\<open>Write\<close> return
  (false once they are used up), the responses that the successive calls of \<^verbatim>\<open>Read\<close>
  give (\<^verbatim>\<open>Read\<close> returns false once they are used up), and the status of \<^verbatim>\<open>Finish\<close>.\<close>

record 'p Stream =
  write_results :: "bool list"
  incoming :: "'p SampleStreamResponse list"
  finish_status :: Status

text \<open>\<^verbatim>\<open>while (!SampleIsDone(responses)) { ... Read ... push_back ... }\<close>: the responses of one
  sample and the responses that are left on the stream, or \<open>None\<close> when \<^verbatim>\<open>Read\<close> fails.\<close>

fun read_sample ::
  "'p SampleStreamResponse list \<Rightarrow> 'p SampleStreamResponse list \<Rightarrow>
   ('p SampleStreamResponse list \<times> 'p SampleStreamResponse list) option" where
  "read_sample responses [] = (if SampleIsDone responses then Some (responses, []) else None)"
| "read_sample responses (response # rest) =
     (if SampleIsDone responses then Some (responses, response # rest)
      else read_sample (responses @ [response]) rest)"

text \<open>The parameters of the assembly that are not among the sources, of which the worker
  makes no use itself.\<close>

record 'p assembly =
  unpack_of :: "'p ChunkData \<Rightarrow> ChunkSlice \<Rightarrow> Tensor result"
  is_timestep_of :: "FlatTrajectory \<Rightarrow> bool"
  decompress_of :: "'p \<Rightarrow> Tensor"
  delta_decode_of :: "Tensor \<Rightarrow> Tensor"
  trajectory_offset_of :: "FlatTrajectory \<Rightarrow> int"
  trajectory_length_of :: "FlatTrajectory \<Rightarrow> int"

definition AsSample_with :: "'p assembly \<Rightarrow> 'p SampleStreamResponse list \<Rightarrow> Sample result" where
  "AsSample_with a responses =
     AsSample_responses (unpack_of a) (is_timestep_of a) (decompress_of a) (delta_decode_of a)
       (trajectory_offset_of a) (trajectory_length_of a) responses"

text \<open>\<^verbatim>\<open>for (int64_t i = 0; i < request.num_samples(); i++)\<close>, with the number of turns that are
  left: the status with which the function returns from inside the loop, if it does,
  \<^verbatim>\<open>num_samples_returned\<close>, the queue and the responses left on the stream.\<close>

fun read_and_push ::
  "'p assembly \<Rightarrow> Status \<Rightarrow> nat \<Rightarrow> 'p SampleStreamResponse list \<Rightarrow> Sample Queue \<Rightarrow> int \<Rightarrow>
   (Status option \<times> int \<times> Sample Queue \<times> 'p SampleStreamResponse list) run" where
  "read_and_push a finish 0 inc queue num_samples_returned =
     Returns (None, num_samples_returned, queue, inc)"
| "read_and_push a finish (Suc turns) inc queue num_samples_returned =
     (case read_sample [] inc of
        None \<Rightarrow> Returns (Some finish, num_samples_returned, queue, [])
      | Some (responses, inc') \<Rightarrow>
         (case AsSample_with a responses of
            Fault f \<Rightarrow> Stops f
          | Error e \<Rightarrow> Returns (Some e, num_samples_returned, queue, inc')
          | Ok sample \<Rightarrow>
             (case Queue_Push queue sample of
                Blocks \<Rightarrow> Blocks
              | Stops f \<Rightarrow> Stops f
              | Returns (False, queue') \<Rightarrow>
                  Returns (Some (CancelledError ''`Close` called on Sampler''),
                           num_samples_returned, queue', inc')
              | Returns (True, queue') \<Rightarrow>
                  read_and_push a finish turns inc' queue' (num_samples_returned + 1))))"

text \<open>\<^verbatim>\<open>while (num_samples_returned < num_samples)\<close> of \<^verbatim>\<open>GrpcSamplerWorker::FetchSamples\<close>
  and the check after it. Every turn calls \<^verbatim>\<open>Write\<close> once.\<close>

fun request_loop ::
  "'p assembly \<Rightarrow> int \<Rightarrow> Status \<Rightarrow> bool list \<Rightarrow> 'p SampleStreamResponse list \<Rightarrow> Sample Queue \<Rightarrow>
   int \<Rightarrow> int \<Rightarrow> ((int \<times> Status) \<times> Sample Queue) run" where
  "request_loop a samples_per_request finish writes inc queue num_samples num_samples_returned =
     (if \<not> num_samples_returned < num_samples
      then (if num_samples_returned \<noteq> num_samples
            then Returns ((num_samples_returned,
                   InternalError (''num_samples_returned != num_samples ('' @
                     StrCatInt num_samples_returned @ '' vs. '' @ StrCatInt num_samples)), queue)
            else Returns ((num_samples_returned, OkStatus), queue))
      else case writes of
          [] \<Rightarrow> Returns ((num_samples_returned, finish), queue)
        | written # rest \<Rightarrow>
            if \<not> written then Returns ((num_samples_returned, finish), queue)
            else (case read_and_push a finish
                         (nat (min samples_per_request (num_samples - num_samples_returned)))
                         inc queue num_samples_returned of
                    Blocks \<Rightarrow> Blocks
                  | Stops f \<Rightarrow> Stops f
                  | Returns (Some e, n, queue', inc') \<Rightarrow> Returns ((n, e), queue')
                  | Returns (None, n, queue', inc') \<Rightarrow>
                      request_loop a samples_per_request finish rest inc' queue' num_samples n))"

declare request_loop.simps [simp del]

text \<open>\<^verbatim>\<open>GrpcSamplerWorker::FetchSamples(queue, num_samples, rate_limiter_timeout)\<close>;
  \<open>worker_closed\<close> is the value of the worker's \<^verbatim>\<open>closed_\<close> when the call begins.\<close>

definition FetchSamples_grpc ::
  "'p assembly \<Rightarrow> int \<Rightarrow> bool \<Rightarrow> 'p Stream \<Rightarrow> Sample Queue \<Rightarrow> int \<Rightarrow>
   ((int \<times> Status) \<times> Sample Queue) run" where
  "FetchSamples_grpc a samples_per_request worker_closed stream queue num_samples =
     (if worker_closed then Returns ((0, CancelledError ''`Close` called on Sampler.''), queue)
      else request_loop a samples_per_request (finish_status stream) (write_results stream)
             (incoming stream) queue num_samples 0)"


subsection \<open>Concrete values for the examples\<close>

definition example_queue :: "Sample Queue" where
  "example_queue = \<lparr>q_items = [], q_closed = True, q_capacity = 1\<rparr>"

text \<open>A sampler after \<^verbatim>\<open>Close\<close>, with 3 of 10 samples returned.\<close>

definition example_sampler :: Sampler where
  "example_sampler = \<lparr>table_name = ''t'', max_samples = 10, max_samples_per_stream = 4,
     requested = 3, returned = 3, closed = True, worker_status = Status kInternal ''broken'',
     samples = example_queue, active_sample = None, dtypes_and_shapes = None\<rparr>"

text \<open>A running sampler with an empty queue.\<close>

definition running_sampler :: Sampler where
  "running_sampler = \<lparr>table_name = ''t'', max_samples = 10, max_samples_per_stream = 4,
     requested = 4, returned = 0, closed = False, worker_status = OkStatus,
     samples = \<lparr>q_items = [], q_closed = False, q_capacity = 1\<rparr>,
     active_sample = None, dtypes_and_shapes = None\<rparr>"

text \<open>An item of one column that lies in the chunks 7 and 8, and the responses that carry it.\<close>

definition vec :: "64 word list \<Rightarrow> Tensor" where
  "vec xs = \<lparr>dtype = DT_INT64, shape = [length xs], flat = xs\<rparr>"

definition example_info :: SampleInfo where
  "example_info =
     \<lparr>item = \<lparr>key = 42, priority = 1,
              flat_trajectory = \<lparr>columns =
                [\<lparr>chunk_slices =
                    [\<lparr>slice_chunk_key = 7, slice_offset = 1, slice_length = 2, slice_index = 0\<rparr>,
                     \<lparr>slice_chunk_key = 8, slice_offset = 0, slice_length = 1, slice_index = 0\<rparr>],
                  squeeze = False\<rparr>]\<rparr>\<rparr>,
      probability = 5, table_size = 100\<rparr>"

definition example_response :: "uint64 \<Rightarrow> Tensor list \<Rightarrow> Tensor SampleStreamResponse" where
  "example_response k ts =
     \<lparr>info = example_info, data_opt = Some \<lparr>chunk_key = k, tensors = ts, delta_encoded = False\<rparr>\<rparr>"

definition example_responses :: "Tensor SampleStreamResponse list" where
  "example_responses = [example_response 7 [vec [10, 11, 12]], example_response 8 [vec [13, 14]]]"

text \<open>A sample of one column in two chunk groups, and the same sample after one call of
  \<open>Sample_GetNextTimestep\<close>.\<close>

definition example_sample :: Sample where
  "example_sample =
     \<lparr>sample_key = 42, sample_probability = 5, sample_table_size = 100, sample_priority = 1,
      num_timesteps = 3, num_data_tensors = 1, chunks = [[vec [10, 11]], [vec [12]]],
      squeeze_columns = [False], next_timestep_index = 0, next_timestep_called = False\<rparr>"

definition example_sample_iterated :: Sample where
  "example_sample_iterated =
     example_sample\<lparr>next_timestep_index := 1, next_timestep_called := True\<rparr>"

text \<open>A sampler whose signature wants a float column where \<open>example_sample\<close> has integers.\<close>

definition mismatch_sampler :: Sampler where
  "mismatch_sampler =
     \<lparr>table_name = ''t'', max_samples = 10, max_samples_per_stream = 4,
      requested = 4, returned = 0, closed = False, worker_status = OkStatus,
      samples = \<lparr>q_items = [example_sample], q_closed = False, q_capacity = 1\<rparr>,
      active_sample = None,
      dtypes_and_shapes = Some
        [\<lparr>spec_dtype = DT_UINT64, spec_shape = Some []\<rparr>,
         \<lparr>spec_dtype = DT_DOUBLE, spec_shape = Some []\<rparr>,
         \<lparr>spec_dtype = DT_INT64, spec_shape = Some []\<rparr>,
         \<lparr>spec_dtype = DT_DOUBLE, spec_shape = Some []\<rparr>,
         \<lparr>spec_dtype = DT_FLOAT, spec_shape = Some []\<rparr>]\<rparr>"

text \<open>The samples that one or more calls of \<open>Sample_GetNextTimestep\<close> lead to.\<close>

inductive fetched :: "Sample \<Rightarrow> Sample \<Rightarrow> bool" where
  fetched_first: "Sample_GetNextTimestep s = Inr (row, s') \<Longrightarrow> fetched s s'"
| fetched_next: "fetched s s' \<Longrightarrow> Sample_GetNextTimestep s' = Inr (row, s'') \<Longrightarrow> fetched s s''"

text \<open>What \<open>example_sample\<close> materialises to, as batched timesteps and as a trajectory.\<close>

definition example_batched_output :: "Tensor list" where
  "example_batched_output =
     [InitializeTensor DT_UINT64 42 3, InitializeTensor DT_DOUBLE 5 3,
      InitializeTensor DT_INT64 100 3, InitializeTensor DT_DOUBLE 1 3, vec [10, 11, 12]]"

definition example_trajectory_output :: "Tensor list" where
  "example_trajectory_output =
     [ScalarTensor DT_UINT64 42, ScalarTensor DT_DOUBLE 5,
      ScalarTensor DT_INT64 100, ScalarTensor DT_DOUBLE 1, vec [10, 11, 12]]"

text \<open>The chunks of data column \<open>i\<close>, one from every chunk group.\<close>

definition column_chunks :: "Tensor list list \<Rightarrow> nat \<Rightarrow> Tensor list" where
  "column_chunks groups i = map (\<lambda>g. g ! i) groups"

text \<open>The invariants of a sample in the data model of the specification: there is a chunk
  group, every group has the sample's number of columns, and every tensor has a leading
  dimension.\<close>

definition sample_invariants :: "Sample \<Rightarrow> bool" where
  "sample_invariants s =
     (chunks s \<noteq> [] \<and>
      list_all (\<lambda>g. length g = num_data_tensors s \<and> list_all (\<lambda>t. shape t \<noteq> []) g) (chunks s))"

text \<open>The specification's account of a timestep-decomposable sample: summed across the chunk
  groups, every column has the same total length. \<open>leading_dim\<close> is the first dimension of a
  tensor that has one, \<open>column_total\<close> the total length of column \<open>i\<close>.\<close>

definition leading_dim :: "Tensor \<Rightarrow> nat" where
  "leading_dim t = (case shape t of [] \<Rightarrow> 0 | d # _ \<Rightarrow> d)"

definition column_total :: "Tensor list list \<Rightarrow> nat \<Rightarrow> nat" where
  "column_total groups i = sum_list (map leading_dim (column_chunks groups i))"

definition timestep_decomposable :: "Sample \<Rightarrow> bool" where
  "timestep_decomposable s =
     list_all (\<lambda>i. column_total (chunks s) i = column_total (chunks s) 0)
       [0 ..< num_data_tensors s]"

text \<open>The total length of every column fits the \<^verbatim>\<open>int\<close> in which
  \<^verbatim>\<open>is_composed_of_timesteps\<close> sums it.\<close>

definition column_totals_fit :: "Sample \<Rightarrow> bool" where
  "column_totals_fit s =
     list_all (\<lambda>i. column_total (chunks s) i < 2 ^ 31) [0 ..< num_data_tensors s]"

text \<open>A sample whose only column is made of integers in the first chunk group and of floats
  in the second.\<close>

definition mixed_sample :: Sample where
  "mixed_sample =
     \<lparr>sample_key = 42, sample_probability = 5, sample_table_size = 100, sample_priority = 1,
      num_timesteps = 2, num_data_tensors = 1,
      chunks = [[vec [10]], [\<lparr>dtype = DT_FLOAT, shape = [1], flat = [11]\<rparr>]],
      squeeze_columns = [False], next_timestep_index = 0, next_timestep_called = False\<rparr>"

text \<open>A sample of two columns with two rows and one row.\<close>

definition ragged_sample :: Sample where
  "ragged_sample =
     \<lparr>sample_key = 42, sample_probability = 5, sample_table_size = 100, sample_priority = 1,
      num_timesteps = 2, num_data_tensors = 2, chunks = [[vec [10, 11], vec [20]]],
      squeeze_columns = [False, False], next_timestep_index = 0, next_timestep_called = False\<rparr>"

text \<open>The sample that the timestep-aligned path makes of \<open>example_responses\<close>: the rows 1 and 2
  of chunk 7 and the row 0 of chunk 8.\<close>

definition assembled_sample :: Sample where
  "assembled_sample =
     \<lparr>sample_key = 42, sample_probability = 5, sample_table_size = 100, sample_priority = 1,
      num_timesteps = 3, num_data_tensors = 1, chunks = [[vec [11, 12]], [vec [13]]],
      squeeze_columns = [False], next_timestep_index = 0, next_timestep_called = False\<rparr>"

text \<open>The update of \<open>remaining\<close> in the words of the claim: \<open>remaining \<leftarrow> remaining - (B - offset)\<close>.\<close>

fun claimed_remaining_after :: "nat list \<Rightarrow> int \<Rightarrow> int \<Rightarrow> int" where
  "claimed_remaining_after [] offset remaining = remaining"
| "claimed_remaining_after (B # Bs) offset remaining =
     claimed_remaining_after Bs 0 (remaining - (int B - offset))"

text \<open>For the examples: a chunk holds one uncompressed column, and unpacking a slice takes the
  rows \<open>offset \<le> i < offset + length\<close> of it.\<close>

definition example_unpack :: "Tensor ChunkData \<Rightarrow> ChunkSlice \<Rightarrow> Tensor result" where
  "example_unpack chunk sl =
     (case tensors chunk of
        [] \<Rightarrow> Error (InternalError ''no column'')
      | t # _ \<Rightarrow>
         (case Slice t (slice_offset sl) (slice_offset sl + slice_length sl) of
            Inl f \<Rightarrow> Fault f
          | Inr r \<Rightarrow> Ok r))"

text \<open>The item of \<open>example_info\<close> as the table returns it, with its chunks 7 and 8; and the
  same item with chunk 8 only.\<close>

definition example_item :: "Tensor SampledItem" where
  "example_item =
     \<lparr>sampled_item = item example_info, sampled_probability = 5, sampled_table_size = 100,
      sampled_chunks = [\<lparr>chunk_key = 7, tensors = [vec [10, 11, 12]], delta_encoded = False\<rparr>,
                        \<lparr>chunk_key = 8, tensors = [vec [13, 14]], delta_encoded = False\<rparr>]\<rparr>"

definition orphan_item :: "'p SampledItem" where
  "orphan_item =
     \<lparr>sampled_item = item example_info, sampled_probability = 5, sampled_table_size = 100,
      sampled_chunks = [\<lparr>chunk_key = 8, tensors = [], delta_encoded = False\<rparr>]\<rparr>"

definition orphan_response :: "'p SampleStreamResponse" where
  "orphan_response =
     \<lparr>info = example_info,
      data_opt = Some \<lparr>chunk_key = 8, tensors = [], delta_encoded = False\<rparr>\<rparr>"

text \<open>The sample that the general path makes of \<open>example_item\<close>.\<close>

definition unpacked_sample :: Sample where
  "unpacked_sample =
     \<lparr>sample_key = 42, sample_probability = 5, sample_table_size = 100, sample_priority = 1,
      num_timesteps = 3, num_data_tensors = 1, chunks = [[vec [11, 12, 13]]],
      squeeze_columns = [False], next_timestep_index = 0, next_timestep_called = False\<rparr>"

text \<open>A sampler that has just been constructed, with one worker; and what a local worker
  meets when the table returns one item per call and \<^verbatim>\<open>Cancel\<close> is called after the first
  call.\<close>

definition fresh_sampler :: Sampler where
  "fresh_sampler = \<lparr>table_name = ''t'', max_samples = 10, max_samples_per_stream = 2,
     requested = 0, returned = 0, closed = False, worker_status = OkStatus,
     samples = \<lparr>q_items = [], q_closed = False, q_capacity = 1\<rparr>,
     active_sample = None, dtypes_and_shapes = None\<rparr>"

definition cancelled_rounds :: "Tensor local_round list" where
  "cancelled_rounds =
     [\<lparr>seen_closed = False, table_status = OkStatus, table_items = [example_item],
       before_final_deadline = True\<rparr>,
      \<lparr>seen_closed = True, table_status = OkStatus, table_items = [],
       before_final_deadline = True\<rparr>]"

text \<open>A trajectory of the rows 1 and 2 of chunk 7, which has 5 rows, in one response.\<close>

definition long_chunk_response :: "Tensor SampleStreamResponse" where
  "long_chunk_response =
     \<lparr>info =
        \<lparr>item = \<lparr>key = 42, priority = 1,
                 flat_trajectory = \<lparr>columns =
                   [\<lparr>chunk_slices =
                       [\<lparr>slice_chunk_key = 7, slice_offset = 1, slice_length = 2, slice_index = 0\<rparr>],
                     squeeze = False\<rparr>]\<rparr>\<rparr>,
         probability = 5, table_size = 100\<rparr>,
      data_opt = Some \<lparr>chunk_key = 7, tensors = [vec [10, 11, 12, 13, 14]], delta_encoded = False\<rparr>\<rparr>"

section \<open>Theorems\<close>

text \<open>
  C4. For a non-empty list of stream responses, \<open>SampleIsDone\<close> is true exactly when every
  chunk key that the flat trajectory of the first response references is the
  \<open>chunk_key\<close> of some response of the list that carries data. For the empty list it is false.
\<close>

theorem SampleIsDone_iff:
  "SampleIsDone ([] :: 'p SampleStreamResponse list) = False \<and>
   (\<forall>sample :: 'p SampleStreamResponse list. sample \<noteq> [] \<longrightarrow>
      SampleIsDone sample =
        (\<forall>c \<in> set (columns (flat_trajectory (item (info (hd sample))))).
           \<forall>sl \<in> set (chunk_slices c).
             \<exists>r \<in> set sample. has_data r \<and> chunk_key (data r) = slice_chunk_key sl))"
proof -
  have mem: "k \<in> received_chunks sample \<longleftrightarrow>
      (\<exists>r \<in> set sample. has_data r \<and> chunk_key (data r) = k)"
    for k and sample :: "'p SampleStreamResponse list"
    by (auto simp: received_chunks_def)
  show ?thesis
    by (simp add: SampleIsDone_def GetChunkKeys_def list_all_iff mem)
qed

theorem SampleIsDone_iff_witness:
  "example_responses \<noteq> [] \<and> SampleIsDone example_responses \<and>
   take 1 example_responses \<noteq> [] \<and> \<not> SampleIsDone (take 1 example_responses)"
proof -
  have ne: "example_responses \<noteq> []" "take 1 example_responses \<noteq> []"
    by (simp_all add: example_responses_def)
  have full: "\<forall>c \<in> set (columns (flat_trajectory (item (info (hd example_responses))))).
      \<forall>sl \<in> set (chunk_slices c).
        \<exists>r \<in> set example_responses. has_data r \<and> chunk_key (data r) = slice_chunk_key sl"
    by (simp add: example_responses_def example_response_def example_info_def has_data_def
        data_def)
  have part: "\<not> (\<forall>c \<in> set (columns (flat_trajectory (item (info (hd (take 1 example_responses)))))).
      \<forall>sl \<in> set (chunk_slices c).
        \<exists>r \<in> set (take 1 example_responses).
          has_data r \<and> chunk_key (data r) = slice_chunk_key sl)"
    by (simp add: example_responses_def example_response_def example_info_def has_data_def
        data_def)
  from SampleIsDone_iff [where 'p = Tensor, THEN conjunct2, rule_format, OF ne(1)]
    SampleIsDone_iff [where 'p = Tensor, THEN conjunct2, rule_format, OF ne(2)] ne full part
  show ?thesis by blast
qed

text \<open>
  C1. When the queue of samples is closed and empty, \<open>PopNextSample\<close> pops nothing and returns
  the out-of-range status if \<open>returned = max_samples\<close>, else the cancelled status if the sampler
  is closed, else \<open>worker_status\<close>, in this order; the sampler is left as it was. That status,
  being an error, is what \<open>GetNextSample\<close> and \<open>GetNextTrajectory\<close> return, and
  \<open>GetNextTimestep\<close> too when it pops (there is no active sample, or it has no rows left).
\<close>

theorem PopNextSample_closed_empty:
  assumes "q_closed (samples s)" and "q_items (samples s) = []"
  shows "\<exists>st. PopNextSample s = Returns (st, None, s) \<and>
     (returned s = max_samples s \<longrightarrow> st = OutOfRangeError ''`max_samples` already returned.'') \<and>
     (returned s \<noteq> max_samples s \<and> closed s \<longrightarrow> st = CancelledError ''Sampler has been cancelled.'') \<and>
     (returned s \<noteq> max_samples s \<and> \<not> closed s \<longrightarrow> st = worker_status s) \<and>
     (\<not> ok st \<longrightarrow>
        GetNextSample s d = Returns (st, s, d) \<and>
        GetNextTrajectory s d = Returns (st, s, d) \<and>
        ((case active_sample s of None \<Rightarrow> True | Some a \<Rightarrow> is_end_of_sample a) \<longrightarrow>
           GetNextTimestep s d e = Returns (st, s, d, e)))"
proof -
  have pop: "Queue_Pop (samples s) = Returns (None, samples s)"
    using assms by (simp add: Queue_Pop_def)
  show ?thesis
    using pop
    by (cases "active_sample s")
       (auto simp: PopNextSample_def GetNextSample_def GetNextTrajectory_def
          pop_and_materialize_def GetNextTimestep_def MaybeSampleNext_def)
qed

theorem PopNextSample_closed_empty_witness:
  "q_closed (samples example_sampler) \<and> q_items (samples example_sampler) = [] \<and>
   PopNextSample example_sampler =
     Returns (CancelledError ''Sampler has been cancelled.'', None, example_sampler) \<and>
   GetNextSample example_sampler [] =
     Returns (CancelledError ''Sampler has been cancelled.'', example_sampler, []) \<and>
   GetNextTrajectory example_sampler [] =
     Returns (CancelledError ''Sampler has been cancelled.'', example_sampler, []) \<and>
   GetNextTimestep example_sampler [] None =
     Returns (CancelledError ''Sampler has been cancelled.'', example_sampler, [], None)"
proof -
  have h1: "q_closed (samples example_sampler)" and h2: "q_items (samples example_sampler) = []"
    by (simp_all add: example_sampler_def example_queue_def)
  have h3: "returned example_sampler \<noteq> max_samples example_sampler \<and> closed example_sampler"
    by (simp add: example_sampler_def)
  have h4: "active_sample example_sampler = None"
    by (simp add: example_sampler_def)
  have h5: "\<not> ok (CancelledError ''Sampler has been cancelled.'')"
    by (simp add: ok_def CancelledError_def)
  from PopNextSample_closed_empty [OF h1 h2, of "[]" None] h3 h4 h5
  show ?thesis using h1 h2 by auto
qed

subsection \<open>The sticky status of the workers\<close>

lemma RunWorker_end_worker_status:
  "\<not> ok (worker_status s) \<Longrightarrow> worker_status (snd (RunWorker_end s n r)) = worker_status s"
  by (simp add: RunWorker_end_def Let_def)

lemma count_returned_worker_status [simp]: "worker_status (count_returned s) = worker_status s"
  by (simp add: count_returned_def Let_def)

lemma PopNextSample_worker_status:
  "PopNextSample s = Returns (st, x, s') \<Longrightarrow> worker_status s' = worker_status s"
  by (auto simp: PopNextSample_def split: run.splits prod.splits option.splits)

lemma MaybeSampleNext_worker_status:
  "MaybeSampleNext s = Returns (st, s') \<Longrightarrow> worker_status s' = worker_status s"
  by (auto simp: MaybeSampleNext_def split: run.splits prod.splits option.splits if_splits
      dest: PopNextSample_worker_status)

lemma pop_and_materialize_worker_status:
  "pop_and_materialize f m s d = Returns (st, s', d') \<Longrightarrow> worker_status s' = worker_status s"
  by (auto simp: pop_and_materialize_def Let_def
      split: run.splits prod.splits option.splits if_splits sum.splits
      dest: PopNextSample_worker_status)

lemma GetNextTimestep_worker_status:
  "GetNextTimestep s d e = Returns (st, s', d', e') \<Longrightarrow> worker_status s' = worker_status s"
  by (auto simp: GetNextTimestep_def Let_def
      split: run.splits prod.splits option.splits if_splits sum.splits bool.splits
      dest: MaybeSampleNext_worker_status)

lemma sampler_step_worker_status:
  "sampler_step s s' \<Longrightarrow> \<not> ok (worker_status s) \<Longrightarrow> worker_status s' = worker_status s"
proof (induction rule: sampler_step.induct)
  case (step_begin s r s')
  then show ?case by (auto simp: RunWorker_begin_def Let_def split: if_splits)
next
  case (step_end s n result b s')
  then show ?case using RunWorker_end_worker_status [of s n result] by simp
next
  case (step_timestep s d e st s' d' e')
  then show ?case by (simp add: GetNextTimestep_worker_status)
next
  case (step_sample s d st s' d')
  then show ?case by (simp add: GetNextSample_def pop_and_materialize_worker_status)
next
  case (step_trajectory s d st s' d')
  then show ?case by (simp add: GetNextTrajectory_def pop_and_materialize_worker_status)
qed (simp_all add: Close_def)

lemma sampler_steps_worker_status:
  "sampler_step\<^sup>*\<^sup>* s s' \<Longrightarrow> \<not> ok (worker_status s) \<Longrightarrow> worker_status s' = worker_status s"
  by (induction rule: rtranclp_induct) (auto simp: sampler_step_worker_status)

text \<open>
  C3. When \<open>FetchSamples\<close> returns an unavailable status, the worker loop only refunds the
  quota and goes on: \<open>worker_status\<close> is not set. Any other status that is not OK, returned
  while \<open>worker_status\<close> is OK, is stored in \<open>worker_status\<close>, the queue is closed and the worker
  returns. Once \<open>worker_status\<close> is not OK, no step of any thread of the sampler changes it.
\<close>

theorem RunWorker_sticky_status:
  "(IsUnavailable st \<longrightarrow>
      RunWorker_end s n (k, st) = (True, s\<lparr>requested := requested s - (n - k)\<rparr>)) \<and>
   (ok (worker_status s) \<and> \<not> ok st \<and> \<not> IsUnavailable st \<longrightarrow>
      (\<exists>s'. RunWorker_end s n (k, st) = (False, s') \<and> worker_status s' = st \<and>
            q_closed (samples s') \<and>
            (\<forall>s''. sampler_step\<^sup>*\<^sup>* s' s'' \<longrightarrow> worker_status s'' = st))) \<and>
   (\<not> ok (worker_status s) \<and> sampler_step\<^sup>*\<^sup>* s s2 \<longrightarrow> worker_status s2 = worker_status s)"
proof (intro conjI impI)
  assume "IsUnavailable st"
  then show "RunWorker_end s n (k, st) = (True, s\<lparr>requested := requested s - (n - k)\<rparr>)"
    by (simp add: RunWorker_end_def Let_def)
next
  assume a: "ok (worker_status s) \<and> \<not> ok st \<and> \<not> IsUnavailable st"
  define s' where "s' = s\<lparr>requested := requested s - (n - k), worker_status := st,
      samples := Queue_Close (samples s)\<rparr>"
  have 1: "RunWorker_end s n (k, st) = (False, s')"
    using a by (simp add: RunWorker_end_def Let_def s'_def)
  have 2: "worker_status s' = st" "q_closed (samples s')"
    by (simp_all add: s'_def Queue_Close_def)
  have 3: "\<forall>s''. sampler_step\<^sup>*\<^sup>* s' s'' \<longrightarrow> worker_status s'' = st"
    using a 2 sampler_steps_worker_status [of s'] by auto
  show "\<exists>s'. RunWorker_end s n (k, st) = (False, s') \<and> worker_status s' = st \<and>
            q_closed (samples s') \<and>
            (\<forall>s''. sampler_step\<^sup>*\<^sup>* s' s'' \<longrightarrow> worker_status s'' = st)"
    using 1 2 3 by blast
next
  assume "\<not> ok (worker_status s) \<and> sampler_step\<^sup>*\<^sup>* s s2"
  then show "worker_status s2 = worker_status s"
    using sampler_steps_worker_status by blast
qed

theorem RunWorker_sticky_status_witness:
  "IsUnavailable (Status kUnavailable ''down'') \<and>
   RunWorker_end running_sampler 4 (1, Status kUnavailable ''down'') =
     (True, running_sampler\<lparr>requested := requested running_sampler - (4 - 1)\<rparr>) \<and>
   ok (worker_status running_sampler) \<and> \<not> ok (Status kInternal ''bad'') \<and>
   \<not> IsUnavailable (Status kInternal ''bad'') \<and>
   (\<exists>s'. RunWorker_end running_sampler 4 (1, Status kInternal ''bad'') = (False, s') \<and>
         worker_status s' = Status kInternal ''bad'' \<and> q_closed (samples s') \<and>
         (\<forall>s''. sampler_step\<^sup>*\<^sup>* s' s'' \<longrightarrow> worker_status s'' = Status kInternal ''bad'')) \<and>
   \<not> ok (worker_status example_sampler) \<and>
   sampler_step\<^sup>*\<^sup>* example_sampler (Close example_sampler) \<and>
   worker_status (Close example_sampler) = worker_status example_sampler"
proof -
  have u: "IsUnavailable (Status kUnavailable ''down'')"
    by (simp add: IsUnavailable_def)
  have i: "ok (worker_status running_sampler) \<and> \<not> ok (Status kInternal ''bad'') \<and>
      \<not> IsUnavailable (Status kInternal ''bad'')"
    by (simp add: running_sampler_def ok_def OkStatus_def IsUnavailable_def)
  have c: "\<not> ok (worker_status example_sampler) \<and>
      sampler_step\<^sup>*\<^sup>* example_sampler (Close example_sampler)"
    by (simp add: example_sampler_def ok_def step_close r_into_rtranclp)
  note a = RunWorker_sticky_status [of "Status kUnavailable ''down''" running_sampler 4 1
      running_sampler, THEN conjunct1, rule_format, OF u]
  note b = RunWorker_sticky_status [of "Status kInternal ''bad''" running_sampler 4 1
      running_sampler, THEN conjunct2, THEN conjunct1, rule_format, OF i]
  note d = RunWorker_sticky_status [of OkStatus example_sampler 0 0 "Close example_sampler",
      THEN conjunct2, THEN conjunct2, rule_format, OF c]
  from u i c a b d show ?thesis by blast
qed


subsection \<open>The two views of a sample exclude each other\<close>

lemma Sample_GetNextTimestep_called:
  "Sample_GetNextTimestep s = Inr (row, s') \<Longrightarrow> next_timestep_called s'"
  by (auto simp: Sample_GetNextTimestep_def split: if_splits sum.splits bool.splits list.splits)

lemma fetched_called: "fetched s s' \<Longrightarrow> next_timestep_called s'"
  by (induction rule: fetched.induct) (auto dest: Sample_GetNextTimestep_called)

text \<open>
  C5. On a sample from which one or more rows have been fetched with \<open>Sample_GetNextTimestep\<close>,
  \<open>AsBatchedTimesteps\<close> and \<open>AsTrajectory\<close> return a data-loss status and leave the sample
  and the output tensors as they were (so every later call fails in the same way).
\<close>

theorem materialize_after_timestep:
  assumes "fetched s0 s"
  shows "AsBatchedTimesteps s d =
           Inr (DataLossError ''Sample::AsBatchedTimesteps: Some time steps have been lost.'', s, d) \<and>
         AsTrajectory s d =
           Inr (DataLossError ''Sample::AsBatchedTimesteps: Some time steps have been lost.'', s, d) \<and>
         code (DataLossError ''Sample::AsBatchedTimesteps: Some time steps have been lost.'') = kDataLoss"
  using fetched_called [OF assms]
  by (simp add: AsBatchedTimesteps_def AsTrajectory_def DataLossError_def)

lemma example_first_timestep:
  "Sample_GetNextTimestep example_sample =
     Inr ([ScalarTensor DT_UINT64 42, ScalarTensor DT_DOUBLE 5, ScalarTensor DT_INT64 100,
           ScalarTensor DT_DOUBLE 1, \<lparr>dtype = DT_INT64, shape = [], flat = [10]\<rparr>],
          example_sample_iterated)"
  by (simp add: Sample_GetNextTimestep_def example_sample_def example_sample_iterated_def
      is_end_of_sample_def is_composed_of_timesteps_def dim_size0_def vec_def SubSlice_def
      DeepCopy_def metadata_scalars_def)

theorem materialize_after_timestep_witness:
  "fetched example_sample example_sample_iterated \<and>
   AsBatchedTimesteps example_sample_iterated [] =
     Inr (DataLossError ''Sample::AsBatchedTimesteps: Some time steps have been lost.'',
          example_sample_iterated, []) \<and>
   AsTrajectory example_sample_iterated [] =
     Inr (DataLossError ''Sample::AsBatchedTimesteps: Some time steps have been lost.'',
          example_sample_iterated, [])"
proof -
  have f: "fetched example_sample example_sample_iterated"
    using example_first_timestep by (rule fetched_first)
  from materialize_after_timestep [OF f, of "[]"] f show ?thesis by simp
qed

subsection \<open>What the constructor of Sample checks\<close>

lemma front_dims_ok:
  "\<forall>g \<in> set groups. g \<noteq> [] \<and> shape (hd g) \<noteq> [] \<Longrightarrow> \<exists>m. front_dims groups n = Inr m"
  by (induction groups arbitrary: n) (auto simp: dim_size0_def split: list.splits)

text \<open>
  C8, as amended. The constructor checks that there is a chunk group and that the first group
  has a tensor (the process stops otherwise). A sample that it constructs holds the groups as
  given and takes its column count from the first group. The column counts of the other groups
  are not compared: every non-empty sequence of groups that each begin with a tensor of rank 1
  or more is accepted.
\<close>

theorem Sample_ctor_checks:
  "(groups = [] \<or> hd groups = [] \<longrightarrow> (\<exists>m. Sample_ctor k p ts pr groups sq = Inl (CheckFailed m))) \<and>
   (Sample_ctor k p ts pr groups sq = Inr s \<longrightarrow>
      chunks s = groups \<and> groups \<noteq> [] \<and> hd groups \<noteq> [] \<and>
      num_data_tensors s = length (hd groups)) \<and>
   ((\<forall>g \<in> set groups. g \<noteq> [] \<and> shape (hd g) \<noteq> []) \<and> groups \<noteq> [] \<longrightarrow>
      (\<exists>s'. Sample_ctor k p ts pr groups sq = Inr s'))"
proof -
  have 1: "\<exists>m. Sample_ctor k p ts pr groups sq = Inl (CheckFailed m)"
    if "groups = [] \<or> hd groups = []"
    using that by (auto simp: Sample_ctor_def)
  have 2: "chunks s = groups \<and> groups \<noteq> [] \<and> hd groups \<noteq> [] \<and>
      num_data_tensors s = length (hd groups)"
    if "Sample_ctor k p ts pr groups sq = Inr s"
    using that by (auto simp: Sample_ctor_def split: if_splits sum.splits)
  have 3: "\<exists>s'. Sample_ctor k p ts pr groups sq = Inr s'"
    if a: "(\<forall>g \<in> set groups. g \<noteq> [] \<and> shape (hd g) \<noteq> []) \<and> groups \<noteq> []"
  proof -
    obtain m where "front_dims groups 0 = Inr m"
      using a front_dims_ok [of groups 0] by blast
    moreover have "hd groups \<noteq> []" using a by (cases groups) auto
    ultimately show ?thesis
      using a by (simp add: Sample_ctor_def)
  qed
  from 1 2 3 show ?thesis by blast
qed

theorem Sample_ctor_checks_witness:
  "(\<exists>m. Sample_ctor 42 5 100 1 [] [] = Inl (CheckFailed m)) \<and>
   (\<exists>s'. Sample_ctor 42 5 100 1 [[vec [10, 11], vec [20, 21]], [vec [12]]] [False, False] = Inr s' \<and>
      chunks s' = [[vec [10, 11], vec [20, 21]], [vec [12]]] \<and> num_data_tensors s' = 2)"
proof -
  let ?groups = "[[vec [10, 11], vec [20, 21]], [vec [12]]]"
  have h: "(\<forall>g \<in> set ?groups. g \<noteq> [] \<and> shape (hd g) \<noteq> []) \<and> ?groups \<noteq> []"
    by (simp add: vec_def)
  from Sample_ctor_checks [of ?groups 42 5 100 1 "[False, False]", THEN conjunct2, THEN conjunct2,
      rule_format, OF h]
  obtain s' where c: "Sample_ctor 42 5 100 1 ?groups [False, False] = Inr s'" by blast
  from Sample_ctor_checks [of ?groups 42 5 100 1 "[False, False]" s', THEN conjunct2,
      THEN conjunct1, rule_format, OF c]
  have "chunks s' = ?groups \<and> num_data_tensors s' = 2" by simp
  moreover from Sample_ctor_checks [of "[]" 42 5 100 1 "[]", THEN conjunct1]
  have "\<exists>m. Sample_ctor 42 5 100 1 [] [] = Inl (CheckFailed m)" by simp
  ultimately show ?thesis using c by blast
qed

text \<open>The claim as it was stated fails: groups of two columns and of one column make a
  sample.\<close>

theorem Sample_ctor_mismatch_counterexample:
  "Sample_ctor 42 5 100 1 [[vec [10, 11], vec [20, 21]], [vec [12]]] [False, False] =
     Inr \<lparr>sample_key = 42, sample_probability = 5, sample_table_size = 100, sample_priority = 1,
          num_timesteps = 3, num_data_tensors = 2,
          chunks = [[vec [10, 11], vec [20, 21]], [vec [12]]],
          squeeze_columns = [False, False], next_timestep_index = 0,
          next_timestep_called = False\<rparr> \<and>
   length [vec [10, 11], vec [20, 21]] \<noteq> length [vec [12]]"
  by (simp add: Sample_ctor_def dim_size0_def vec_def)


subsection \<open>A failed validation of the output\<close>

lemma validate_tensor_code:
  "validate_tensor tbl specs d mode i = Some e \<Longrightarrow> code e = kInvalidArgument"
  by (auto simp: validate_tensor_def InvalidArgumentError_def Let_def split: if_splits)

lemma validate_loop_code:
  "\<not> ok (validate_loop tbl specs d mode is) \<Longrightarrow>
   code (validate_loop tbl specs d mode is) = kInvalidArgument"
  by (induction "is") (auto simp: ok_def OkStatus_def split: option.splits dest: validate_tensor_code)

lemma ValidateAgainstOutputSpec_code:
  "\<not> ok (ValidateAgainstOutputSpec s d mode) \<Longrightarrow>
   code (ValidateAgainstOutputSpec s d mode) = kInvalidArgument"
  by (auto simp: ValidateAgainstOutputSpec_def ok_def OkStatus_def InvalidArgumentError_def
      split: option.splits if_splits dest: validate_loop_code [unfolded ok_def])

lemma ValidateAgainstOutputSpec_samples [simp]:
  "ValidateAgainstOutputSpec (s\<lparr>samples := q\<rparr>) d mode = ValidateAgainstOutputSpec s d mode"
  by (simp add: ValidateAgainstOutputSpec_def split: option.splits)

lemma pop_and_materialize_invalid:
  assumes "q_items (samples s) = x # rest"
    and "materialize x d = Inr (st1, x', d1)" and "ok st1"
    and "\<not> ok (ValidateAgainstOutputSpec s d1 mode)"
  shows "pop_and_materialize materialize mode s d =
     Returns (ValidateAgainstOutputSpec s d1 mode,
              s\<lparr>samples := (samples s)\<lparr>q_items := rest\<rparr>\<rparr>, d1)"
  using assms
  by (simp add: pop_and_materialize_def PopNextSample_def Queue_Pop_def ok_def OkStatus_def)

text \<open>
  C10, as amended. When a sample has been popped in \<open>GetNextSample\<close> or \<open>GetNextTrajectory\<close>
  and materialised, and the validation against the signature fails, the call returns the
  status of the validation, which is an invalid-argument status; \<open>returned\<close> is not incremented
  and the queue is not closed by the call. The state has changed all the same: the sample has
  left the queue and is not put back, and the materialised tensors have been written to the
  output.
\<close>

theorem validation_failure_state:
  assumes "q_items (samples s) = x # rest"
    and "\<not> ok (ValidateAgainstOutputSpec s d1 kBatchedTimestep)"
    and "\<not> ok (ValidateAgainstOutputSpec s d2 kTrajectory)"
  shows "(AsBatchedTimesteps x d = Inr (OkStatus, x1, d1) \<longrightarrow>
           (\<exists>st s'. GetNextSample s d = Returns (st, s', d1) \<and>
              st = ValidateAgainstOutputSpec s d1 kBatchedTimestep \<and> code st = kInvalidArgument \<and>
              returned s' = returned s \<and> q_closed (samples s') = q_closed (samples s) \<and>
              q_items (samples s') = rest \<and> s' = s\<lparr>samples := (samples s)\<lparr>q_items := rest\<rparr>\<rparr>)) \<and>
         (AsTrajectory x d = Inr (OkStatus, x2, d2) \<longrightarrow>
           (\<exists>st s'. GetNextTrajectory s d = Returns (st, s', d2) \<and>
              st = ValidateAgainstOutputSpec s d2 kTrajectory \<and> code st = kInvalidArgument \<and>
              returned s' = returned s \<and> q_closed (samples s') = q_closed (samples s) \<and>
              q_items (samples s') = rest \<and> s' = s\<lparr>samples := (samples s)\<lparr>q_items := rest\<rparr>\<rparr>))"
proof -
  have okst: "ok OkStatus" by (simp add: ok_def OkStatus_def)
  have a: "GetNextSample s d = Returns (ValidateAgainstOutputSpec s d1 kBatchedTimestep,
      s\<lparr>samples := (samples s)\<lparr>q_items := rest\<rparr>\<rparr>, d1)"
    if "AsBatchedTimesteps x d = Inr (OkStatus, x1, d1)"
    unfolding GetNextSample_def
    using pop_and_materialize_invalid [where materialize = AsBatchedTimesteps, OF assms(1) that okst assms(2)] .
  have b: "GetNextTrajectory s d = Returns (ValidateAgainstOutputSpec s d2 kTrajectory,
      s\<lparr>samples := (samples s)\<lparr>q_items := rest\<rparr>\<rparr>, d2)"
    if "AsTrajectory x d = Inr (OkStatus, x2, d2)"
    unfolding GetNextTrajectory_def
    using pop_and_materialize_invalid [where materialize = AsTrajectory, OF assms(1) that okst assms(3)] .
  show ?thesis
    using a b ValidateAgainstOutputSpec_code [OF assms(2)] ValidateAgainstOutputSpec_code [OF assms(3)]
    by simp
qed

lemma example_batched:
  "AsBatchedTimesteps example_sample [] =
     Inr (OkStatus, example_sample\<lparr>chunks := []\<rparr>, example_batched_output)"
  by (simp add: AsBatchedTimesteps_def example_sample_def is_composed_of_timesteps_def
      dim_size0_def vec_def Concat_def row_size_def metadata_vectors_def example_batched_output_def)

lemma example_trajectory:
  "AsTrajectory example_sample [] =
     Inr (OkStatus, example_sample\<lparr>chunks := []\<rparr>, example_trajectory_output)"
  by (simp add: AsTrajectory_def trajectory_columns_def example_sample_def
      dim_size0_def vec_def Concat_def row_size_def metadata_scalars_def
      example_trajectory_output_def)

lemma mismatch_batched:
  "ValidateAgainstOutputSpec mismatch_sampler example_batched_output kBatchedTimestep =
     InvalidArgumentError (''Received incompatible tensor at flattened index 4 from table '' @
       [CHR 0x27] @ ''t'' @ [CHR 0x27] @ ''.'')"
  by (simp add: ValidateAgainstOutputSpec_def mismatch_sampler_def example_batched_output_def
      validate_tensor_def vec_def dims_def StrCatInt_def digits.simps upt_rec)

lemma mismatch_trajectory:
  "ValidateAgainstOutputSpec mismatch_sampler example_trajectory_output kTrajectory =
     InvalidArgumentError (''Received incompatible tensor at flattened index 4 from table '' @
       [CHR 0x27] @ ''t'' @ [CHR 0x27] @ ''.'')"
  by (simp add: ValidateAgainstOutputSpec_def mismatch_sampler_def example_trajectory_output_def
      validate_tensor_def vec_def dims_def StrCatInt_def digits.simps upt_rec)

theorem validation_failure_state_witness:
  "q_items (samples mismatch_sampler) = [example_sample] \<and>
   \<not> ok (ValidateAgainstOutputSpec mismatch_sampler example_batched_output kBatchedTimestep) \<and>
   \<not> ok (ValidateAgainstOutputSpec mismatch_sampler example_trajectory_output kTrajectory) \<and>
   AsBatchedTimesteps example_sample [] =
     Inr (OkStatus, example_sample\<lparr>chunks := []\<rparr>, example_batched_output) \<and>
   AsTrajectory example_sample [] =
     Inr (OkStatus, example_sample\<lparr>chunks := []\<rparr>, example_trajectory_output) \<and>
   (\<exists>st s'. GetNextSample mismatch_sampler [] = Returns (st, s', example_batched_output) \<and>
      code st = kInvalidArgument \<and> returned s' = returned mismatch_sampler \<and>
      q_closed (samples s') = q_closed (samples mismatch_sampler) \<and> q_items (samples s') = []) \<and>
   (\<exists>st s'. GetNextTrajectory mismatch_sampler [] = Returns (st, s', example_trajectory_output) \<and>
      code st = kInvalidArgument \<and> returned s' = returned mismatch_sampler \<and>
      q_closed (samples s') = q_closed (samples mismatch_sampler) \<and> q_items (samples s') = [])"
proof -
  have q: "q_items (samples mismatch_sampler) = [example_sample]"
    by (simp add: mismatch_sampler_def)
  have v1: "\<not> ok (ValidateAgainstOutputSpec mismatch_sampler example_batched_output kBatchedTimestep)"
    by (simp add: mismatch_batched ok_def InvalidArgumentError_def)
  have v2: "\<not> ok (ValidateAgainstOutputSpec mismatch_sampler example_trajectory_output kTrajectory)"
    by (simp add: mismatch_trajectory ok_def InvalidArgumentError_def)
  note t = validation_failure_state [OF q v1 v2, of "[]" "example_sample\<lparr>chunks := []\<rparr>"
      "example_sample\<lparr>chunks := []\<rparr>"]
  from t [THEN conjunct1, rule_format, OF example_batched]
    t [THEN conjunct2, rule_format, OF example_trajectory]
    q v1 v2 example_batched example_trajectory
  show ?thesis by blast
qed

text \<open>The claim as it was stated ("no state change") fails: the queue has lost its sample.\<close>

theorem validation_failure_pops_counterexample:
  "GetNextSample mismatch_sampler [] =
     Returns (InvalidArgumentError (''Received incompatible tensor at flattened index 4 from table '' @
                [CHR 0x27] @ ''t'' @ [CHR 0x27] @ ''.''),
              mismatch_sampler\<lparr>samples := \<lparr>q_items = [], q_closed = False, q_capacity = 1\<rparr>\<rparr>,
              example_batched_output) \<and>
   samples (mismatch_sampler\<lparr>samples := \<lparr>q_items = [], q_closed = False, q_capacity = 1\<rparr>\<rparr>) \<noteq>
     samples mismatch_sampler \<and>
   example_batched_output \<noteq> []"
proof -
  have q: "q_items (samples mismatch_sampler) = [example_sample]"
    by (simp add: mismatch_sampler_def)
  have v1: "\<not> ok (ValidateAgainstOutputSpec mismatch_sampler example_batched_output kBatchedTimestep)"
    by (simp add: mismatch_batched ok_def InvalidArgumentError_def)
  have okst: "ok OkStatus" by (simp add: ok_def OkStatus_def)
  have "GetNextSample mismatch_sampler [] =
      Returns (ValidateAgainstOutputSpec mismatch_sampler example_batched_output kBatchedTimestep,
        mismatch_sampler\<lparr>samples := (samples mismatch_sampler)\<lparr>q_items := []\<rparr>\<rparr>,
        example_batched_output)"
    unfolding GetNextSample_def
    using pop_and_materialize_invalid [where materialize = AsBatchedTimesteps,
        OF q example_batched okst v1] .
  then show ?thesis
    by (simp add: mismatch_batched) (simp add: mismatch_sampler_def example_batched_output_def)
qed


subsection \<open>Batched timesteps\<close>

lemma push_columns_eq:
  "length g = length cols \<Longrightarrow> push_columns g cols = Inr (map2 (\<lambda>c b. c @ [b]) cols g)"
proof (induction g arbitrary: cols)
  case Nil
  then show ?case by simp
next
  case (Cons b g)
  then show ?case by (cases cols) auto
qed

lemma column_chunks_Cons: "column_chunks (g # rest) i = g ! i # column_chunks rest i"
  by (simp add: column_chunks_def)

lemma extract_chunks_eq:
  "\<forall>g \<in> set groups. length g = length acc \<Longrightarrow>
   extract_chunks groups acc = Inr (map (\<lambda>i. acc ! i @ column_chunks groups i) [0 ..< length acc])"
proof (induction groups arbitrary: acc)
  case Nil
  then show ?case by (simp add: column_chunks_def map_nth)
next
  case (Cons g rest)
  let ?acc' = "map2 (\<lambda>c b. c @ [b]) acc g"
  have len: "length g = length acc" using Cons.prems by simp
  have push: "push_columns g acc = Inr ?acc'"
    using push_columns_eq [OF len] .
  have len': "length ?acc' = length acc" using len by simp
  have rest: "\<forall>g' \<in> set rest. length g' = length ?acc'"
    using Cons.prems len' by simp
  have "extract_chunks (g # rest) acc = extract_chunks rest ?acc'"
    using push by simp
  also have "\<dots> = Inr (map (\<lambda>i. ?acc' ! i @ column_chunks rest i) [0 ..< length ?acc'])"
    using Cons.IH [OF rest] .
  also have "map (\<lambda>i. ?acc' ! i @ column_chunks rest i) [0 ..< length ?acc'] =
      map (\<lambda>i. acc ! i @ column_chunks (g # rest) i) [0 ..< length acc]"
    using len by (auto simp: column_chunks_Cons)
  finally show ?case .
qed

lemma concat_columns_Ok:
  "concat_columns cs = Ok ts \<Longrightarrow> list_all2 (\<lambda>c t. Concat c = Ok t) cs ts"
proof (induction cs arbitrary: ts)
  case Nil
  then show ?case by simp
next
  case (Cons c cs)
  then show ?case
    by (auto split: result.splits)
qed

lemma concat_columns_Error:
  "\<lbrakk>i < length cs; Concat (cs ! i) = Error e; \<forall>j < i. \<exists>t. Concat (cs ! j) = Ok t\<rbrakk>
   \<Longrightarrow> concat_columns cs = Error e"
proof (induction cs arbitrary: i)
  case Nil
  then show ?case by simp
next
  case (Cons c cs)
  show ?case
  proof (cases i)
    case 0
    then show ?thesis using Cons.prems by simp
  next
    case (Suc k)
    have "\<exists>t. Concat c = Ok t" using Cons.prems(3) Suc by auto
    moreover have "concat_columns cs = Error e"
    proof (rule Cons.IH [of k])
      show "k < length cs" using Cons.prems(1) Suc by simp
      show "Concat (cs ! k) = Error e" using Cons.prems(2) Suc by simp
      show "\<forall>j<k. \<exists>t. Concat (cs ! j) = Ok t"
        using Cons.prems(3) Suc by auto
    qed
    ultimately show ?thesis by auto
  qed
qed

lemma concat_columns_all_Ok:
  "\<forall>i < length cs. \<exists>t. Concat (cs ! i) = Ok t \<Longrightarrow> \<exists>ts. concat_columns cs = Ok ts"
proof (induction cs)
  case Nil
  then show ?case by simp
next
  case (Cons c cs)
  have "\<exists>t. Concat c = Ok t" using Cons.prems by auto
  moreover have "\<exists>ts. concat_columns cs = Ok ts"
    using Cons.prems by (intro Cons.IH) auto
  ultimately show ?case by auto
qed

lemma column_length_ok:
  "\<forall>g \<in> set groups. i < length g \<and> (\<forall>t \<in> set g. shape t \<noteq> []) \<Longrightarrow>
   \<exists>n. column_length groups i len = Inr n"
proof (induction groups arbitrary: len)
  case Nil
  then show ?case by simp
next
  case (Cons g rest)
  then have "shape (g ! i) \<noteq> []" by simp
  then obtain d ds where "shape (g ! i) = d # ds" by (cases "shape (g ! i)") auto
  then show ?case using Cons by (simp add: dim_size0_def)
qed

lemma column_lengths_ok:
  "\<forall>i \<in> set is. \<forall>g \<in> set groups. i < length g \<and> (\<forall>t \<in> set g. shape t \<noteq> []) \<Longrightarrow>
   \<exists>ns. column_lengths groups is = Inr ns"
proof (induction "is")
  case Nil
  then show ?case by simp
next
  case (Cons i rest)
  obtain n where "column_length groups i 0 = Inr n"
    using column_length_ok [of groups i 0] Cons.prems by auto
  moreover obtain ns where "column_lengths groups rest = Inr ns"
    using Cons by auto
  ultimately show ?case by simp
qed

lemma is_composed_of_timesteps_ok:
  assumes "sample_invariants s"
  shows "\<exists>b. is_composed_of_timesteps s = Inr b"
proof -
  obtain first rest where c: "chunks s = first # rest"
    using assms by (cases "chunks s") (auto simp: sample_invariants_def)
  have all: "\<forall>g \<in> set (chunks s). length g = num_data_tensors s \<and> (\<forall>t \<in> set g. shape t \<noteq> [])"
    using assms by (auto simp: sample_invariants_def list_all_iff)
  then have "length first = num_data_tensors s" using c by simp
  then have "\<forall>i \<in> set [0 ..< length first]. \<forall>g \<in> set (chunks s).
      i < length g \<and> (\<forall>t \<in> set g. shape t \<noteq> [])"
    using all by auto
  then obtain ns where "column_lengths (chunks s) [0 ..< length first] = Inr ns"
    using column_lengths_ok by blast
  then show ?thesis using c by (simp add: is_composed_of_timesteps_def)
qed

lemma extract_chunks_sample:
  assumes "sample_invariants s"
  shows "extract_chunks (chunks s) (replicate (num_data_tensors s) []) =
     Inr (map (column_chunks (chunks s)) [0 ..< num_data_tensors s])"
proof -
  have "\<forall>g \<in> set (chunks s). length g = length (replicate (num_data_tensors s) ([] :: Tensor list))"
    using assms by (auto simp: sample_invariants_def list_all_iff)
  from extract_chunks_eq [OF this] show ?thesis by simp
qed

lemma word32_of_nat_eq:
  "a < 2 ^ 31 \<Longrightarrow> b < 2 ^ 31 \<Longrightarrow> ((of_nat a :: 32 word) = of_nat b) = (a = b)"
proof -
  assume a: "a < 2 ^ 31" and b: "b < 2 ^ 31"
  have "a < 2 ^ 32" "b < 2 ^ 32" using a b by simp_all
  then have "take_bit 32 a = a" "take_bit 32 b = b"
    by (simp_all add: take_bit_nat_eq_self)
  then show ?thesis
    by (simp add: word_of_nat_eq_iff)
qed

lemma column_length_total:
  "\<forall>g \<in> set groups. i < length g \<and> shape (g ! i) \<noteq> [] \<Longrightarrow>
   column_length groups i len = Inr (len + of_nat (column_total groups i))"
proof (induction groups arbitrary: len)
  case Nil
  then show ?case by (simp add: column_total_def column_chunks_def)
next
  case (Cons g rest)
  then obtain d ds where d: "shape (g ! i) = d # ds"
    by (cases "shape (g ! i)") auto
  have "column_length (g # rest) i len = column_length rest i (len + of_nat d)"
    using Cons.prems d by (simp add: dim_size0_def)
  also have "\<dots> = Inr (len + of_nat d + of_nat (column_total rest i))"
    using Cons by simp
  also have "len + of_nat d + of_nat (column_total rest i) =
      len + of_nat (column_total (g # rest) i)"
    using d by (simp add: column_total_def column_chunks_def leading_dim_def)
  finally show ?case .
qed

lemma column_lengths_total:
  "\<forall>i \<in> set is. \<forall>g \<in> set groups. i < length g \<and> shape (g ! i) \<noteq> [] \<Longrightarrow>
   column_lengths groups is = Inr (map (\<lambda>i. of_nat (column_total groups i)) is)"
proof (induction "is")
  case Nil
  then show ?case by simp
next
  case (Cons i rest)
  have "column_length groups i 0 = Inr (of_nat (column_total groups i))"
    using column_length_total [of groups i 0] Cons.prems by simp
  then show ?case using Cons by simp
qed

lemma is_composed_of_timesteps_totals:
  assumes "sample_invariants s" and "column_totals_fit s"
  shows "is_composed_of_timesteps s = Inr (timestep_decomposable s)"
proof -
  let ?n = "num_data_tensors s"
  let ?w = "\<lambda>i. (of_nat (column_total (chunks s) i) :: 32 word)"
  obtain first rest where c: "chunks s = first # rest"
    using assms(1) by (cases "chunks s") (auto simp: sample_invariants_def)
  have all: "\<forall>g \<in> set (chunks s). length g = ?n \<and> (\<forall>t \<in> set g. shape t \<noteq> [])"
    using assms(1) by (auto simp: sample_invariants_def list_all_iff)
  then have n: "length first = ?n" using c by simp
  have "\<forall>i \<in> set [0 ..< ?n]. \<forall>g \<in> set (chunks s). i < length g \<and> shape (g ! i) \<noteq> []"
    using all by auto
  then have lens: "column_lengths (chunks s) [0 ..< ?n] = Inr (map ?w [0 ..< ?n])"
    by (rule column_lengths_total)
  have fit: "\<forall>i < ?n. column_total (chunks s) i < 2 ^ 31"
    using assms(2) by (auto simp: column_totals_fit_def list_all_iff)
  have "list_all (\<lambda>a. a = hd (map ?w [0 ..< ?n])) (map ?w [0 ..< ?n]) = timestep_decomposable s"
  proof (cases "?n = 0")
    case True
    then show ?thesis by (simp add: timestep_decomposable_def)
  next
    case False
    then have hd: "hd (map ?w [0 ..< ?n]) = ?w 0"
      by (simp add: hd_map upt_conv_Cons)
    have "\<forall>i < ?n. (?w i = ?w 0) = (column_total (chunks s) i = column_total (chunks s) 0)"
      using fit False by (auto simp: word32_of_nat_eq)
    then show ?thesis
      unfolding hd by (auto simp: timestep_decomposable_def list_all_iff)
  qed
  then show ?thesis
    using c n lens by (simp add: is_composed_of_timesteps_def)
qed

text \<open>
  C6, as amended. Take a sample that satisfies the invariants of the data model, whose columns'
  total lengths each fit an \<^verbatim>\<open>int\<close>, and from which no row has been fetched. When it is not
  timestep-decomposable, that is, when the total lengths of its columns across the chunk groups
  are not all equal, \<open>AsBatchedTimesteps\<close> returns the failed-precondition status and changes
  nothing. Otherwise, if the concatenation of every data column across the chunk groups
  succeeds, it returns OK and the output is the key, the probability, the table size and the
  priority, each as a vector of \<open>num_timesteps\<close> copies, followed by the concatenations of the
  columns; and if a concatenation returns an error, the first such error is returned and the
  output is left as it was.
\<close>

theorem AsBatchedTimesteps_result:
  assumes "sample_invariants s" and "column_totals_fit s" and "\<not> next_timestep_called s"
  shows "is_composed_of_timesteps s = Inr (timestep_decomposable s) \<and>
     (\<not> timestep_decomposable s \<longrightarrow> AsBatchedTimesteps s d =
        Inr (FailedPreconditionError
          ''Sample::AsBatchedTimesteps when trajectory cannot be decomposed into timesteps.'', s, d)) \<and>
     (timestep_decomposable s \<longrightarrow>
        ((\<forall>i < num_data_tensors s. \<exists>t. Concat (column_chunks (chunks s) i) = Ok t) \<longrightarrow>
           (\<exists>cols. AsBatchedTimesteps s d =
               Inr (OkStatus, s\<lparr>chunks := []\<rparr>,
                 [\<lparr>dtype = DT_UINT64, shape = [num_timesteps s],
                    flat = replicate (num_timesteps s) (sample_key s)\<rparr>,
                  \<lparr>dtype = DT_DOUBLE, shape = [num_timesteps s],
                    flat = replicate (num_timesteps s) (sample_probability s)\<rparr>,
                  \<lparr>dtype = DT_INT64, shape = [num_timesteps s],
                    flat = replicate (num_timesteps s) (sample_table_size s)\<rparr>,
                  \<lparr>dtype = DT_DOUBLE, shape = [num_timesteps s],
                    flat = replicate (num_timesteps s) (sample_priority s)\<rparr>] @ cols) \<and>
              length cols = num_data_tensors s \<and>
              (\<forall>i < num_data_tensors s. Concat (column_chunks (chunks s) i) = Ok (cols ! i)))) \<and>
        (\<forall>i < num_data_tensors s. \<forall>e.
           Concat (column_chunks (chunks s) i) = Error e \<and>
           (\<forall>j < i. \<exists>t. Concat (column_chunks (chunks s) j) = Ok t) \<longrightarrow>
           AsBatchedTimesteps s d = Inr (e, s\<lparr>chunks := []\<rparr>, d)))"
proof -
  define b where "b = timestep_decomposable s"
  have b: "is_composed_of_timesteps s = Inr b"
    unfolding b_def using is_composed_of_timesteps_totals [OF assms(1,2)] .
  let ?cs = "map (column_chunks (chunks s)) [0 ..< num_data_tensors s]"
  note ex = extract_chunks_sample [OF assms(1)]
  have no: "AsBatchedTimesteps s d =
        Inr (FailedPreconditionError
          ''Sample::AsBatchedTimesteps when trajectory cannot be decomposed into timesteps.'', s, d)"
    if "\<not> b"
    using that b assms(3) by (simp add: AsBatchedTimesteps_def)
  have yes: "AsBatchedTimesteps s d =
      (case concat_columns ?cs of
         Fault f \<Rightarrow> Inl f
       | Error e \<Rightarrow> Inr (e, s\<lparr>chunks := []\<rparr>, d)
       | Ok cols \<Rightarrow> Inr (OkStatus, s\<lparr>chunks := []\<rparr>, metadata_vectors s @ cols))"
    if "b"
    using that b assms(3) ex by (simp add: AsBatchedTimesteps_def)
  have good: "\<exists>cols. AsBatchedTimesteps s d =
               Inr (OkStatus, s\<lparr>chunks := []\<rparr>, metadata_vectors s @ cols) \<and>
              length cols = num_data_tensors s \<and>
              (\<forall>i < num_data_tensors s. Concat (column_chunks (chunks s) i) = Ok (cols ! i))"
    if "b" and all: "\<forall>i < num_data_tensors s. \<exists>t. Concat (column_chunks (chunks s) i) = Ok t"
  proof -
    have "\<forall>i < length ?cs. \<exists>t. Concat (?cs ! i) = Ok t" using all by simp
    then obtain cols where c: "concat_columns ?cs = Ok cols"
      using concat_columns_all_Ok by blast
    then have l: "list_all2 (\<lambda>c t. Concat c = Ok t) ?cs cols"
      by (simp add: concat_columns_Ok)
    then have len: "length cols = num_data_tensors s"
      by (auto dest: list_all2_lengthD)
    have "\<forall>i < num_data_tensors s. Concat (column_chunks (chunks s) i) = Ok (cols ! i)"
      using l len by (auto simp: list_all2_conv_all_nth)
    then show ?thesis using yes [OF \<open>b\<close>] c len by simp
  qed
  have bad: "AsBatchedTimesteps s d = Inr (e, s\<lparr>chunks := []\<rparr>, d)"
    if "b" and "i < num_data_tensors s" and "Concat (column_chunks (chunks s) i) = Error e"
      and "\<forall>j < i. \<exists>t. Concat (column_chunks (chunks s) j) = Ok t" for i e
  proof -
    have "concat_columns ?cs = Error e"
      using that by (intro concat_columns_Error [of i]) auto
    then show ?thesis using yes [OF \<open>b\<close>] by simp
  qed
  have mv: "metadata_vectors s = [\<lparr>dtype = DT_UINT64, shape = [num_timesteps s],
                    flat = replicate (num_timesteps s) (sample_key s)\<rparr>,
                  \<lparr>dtype = DT_DOUBLE, shape = [num_timesteps s],
                    flat = replicate (num_timesteps s) (sample_probability s)\<rparr>,
                  \<lparr>dtype = DT_INT64, shape = [num_timesteps s],
                    flat = replicate (num_timesteps s) (sample_table_size s)\<rparr>,
                  \<lparr>dtype = DT_DOUBLE, shape = [num_timesteps s],
                    flat = replicate (num_timesteps s) (sample_priority s)\<rparr>]"
    by (simp add: metadata_vectors_def InitializeTensor_def)
  show ?thesis
    using b no good bad unfolding mv b_def by blast
qed

theorem AsBatchedTimesteps_result_witness:
  "sample_invariants example_sample \<and> column_totals_fit example_sample \<and>
   \<not> next_timestep_called example_sample \<and>
   timestep_decomposable example_sample \<and>
   is_composed_of_timesteps example_sample = Inr True \<and>
   Concat (column_chunks (chunks example_sample) 0) = Ok (vec [10, 11, 12]) \<and>
   AsBatchedTimesteps example_sample [] =
     Inr (OkStatus, example_sample\<lparr>chunks := []\<rparr>,
          [\<lparr>dtype = DT_UINT64, shape = [3], flat = [42, 42, 42]\<rparr>,
           \<lparr>dtype = DT_DOUBLE, shape = [3], flat = [5, 5, 5]\<rparr>,
           \<lparr>dtype = DT_INT64, shape = [3], flat = [100, 100, 100]\<rparr>,
           \<lparr>dtype = DT_DOUBLE, shape = [3], flat = [1, 1, 1]\<rparr>,
           vec [10, 11, 12]]) \<and>
   sample_invariants ragged_sample \<and> column_totals_fit ragged_sample \<and>
   \<not> next_timestep_called ragged_sample \<and>
   \<not> timestep_decomposable ragged_sample \<and>
   is_composed_of_timesteps ragged_sample = Inr False \<and>
   AsBatchedTimesteps ragged_sample [] =
     Inr (FailedPreconditionError
       ''Sample::AsBatchedTimesteps when trajectory cannot be decomposed into timesteps.'',
       ragged_sample, []) \<and>
   sample_invariants mixed_sample \<and> column_totals_fit mixed_sample \<and>
   \<not> next_timestep_called mixed_sample \<and>
   timestep_decomposable mixed_sample \<and>
   is_composed_of_timesteps mixed_sample = Inr True \<and>
   Concat (column_chunks (chunks mixed_sample) 0) =
     Error (InvalidArgumentError ''Cannot concatenate tensors that have different data types.'') \<and>
   AsBatchedTimesteps mixed_sample [] =
     Inr (InvalidArgumentError ''Cannot concatenate tensors that have different data types.'',
          mixed_sample\<lparr>chunks := []\<rparr>, [])"
proof -
  have e: "sample_invariants example_sample" "column_totals_fit example_sample"
    "\<not> next_timestep_called example_sample"
    "timestep_decomposable example_sample"
    "Concat (column_chunks (chunks example_sample) 0) = Ok (vec [10, 11, 12])"
    "num_data_tensors example_sample = 1" "num_timesteps example_sample = 3"
    by (simp_all add: sample_invariants_def column_totals_fit_def timestep_decomposable_def
        column_total_def leading_dim_def example_sample_def vec_def column_chunks_def
        Concat_def row_size_def)
  have r: "sample_invariants ragged_sample" "column_totals_fit ragged_sample"
    "\<not> next_timestep_called ragged_sample"
    "\<not> timestep_decomposable ragged_sample"
    by (simp_all add: sample_invariants_def column_totals_fit_def timestep_decomposable_def
        column_total_def leading_dim_def ragged_sample_def vec_def column_chunks_def upt_rec)
  have m: "sample_invariants mixed_sample" "column_totals_fit mixed_sample"
    "\<not> next_timestep_called mixed_sample"
    "timestep_decomposable mixed_sample"
    "Concat (column_chunks (chunks mixed_sample) 0) =
       Error (InvalidArgumentError ''Cannot concatenate tensors that have different data types.'')"
    "num_data_tensors mixed_sample = 1"
    by (simp_all add: sample_invariants_def column_totals_fit_def timestep_decomposable_def
        column_total_def leading_dim_def mixed_sample_def vec_def column_chunks_def Concat_def)
  note te = AsBatchedTimesteps_result [OF e(1,2,3), of "[]"]
  note tr = AsBatchedTimesteps_result [OF r(1,2,3), of "[]"]
  note tm = AsBatchedTimesteps_result [OF m(1,2,3), of "[]"]
  from te e have ce: "is_composed_of_timesteps example_sample = Inr True" by simp
  from tr r have cr: "is_composed_of_timesteps ragged_sample = Inr False" by simp
  from tm m have cm: "is_composed_of_timesteps mixed_sample = Inr True" by simp
  from te e
  obtain cols where c: "AsBatchedTimesteps example_sample [] =
     Inr (OkStatus, example_sample\<lparr>chunks := []\<rparr>,
          [\<lparr>dtype = DT_UINT64, shape = [3], flat = replicate 3 (sample_key example_sample)\<rparr>,
           \<lparr>dtype = DT_DOUBLE, shape = [3], flat = replicate 3 (sample_probability example_sample)\<rparr>,
           \<lparr>dtype = DT_INT64, shape = [3], flat = replicate 3 (sample_table_size example_sample)\<rparr>,
           \<lparr>dtype = DT_DOUBLE, shape = [3], flat = replicate 3 (sample_priority example_sample)\<rparr>]
          @ cols)" "length cols = 1" "cols ! 0 = vec [10, 11, 12]"
    by auto
  from c(2,3) have "cols = [vec [10, 11, 12]]"
    by (cases cols) auto
  with c(1) have 1: "AsBatchedTimesteps example_sample [] =
     Inr (OkStatus, example_sample\<lparr>chunks := []\<rparr>,
          [\<lparr>dtype = DT_UINT64, shape = [3], flat = [42, 42, 42]\<rparr>,
           \<lparr>dtype = DT_DOUBLE, shape = [3], flat = [5, 5, 5]\<rparr>,
           \<lparr>dtype = DT_INT64, shape = [3], flat = [100, 100, 100]\<rparr>,
           \<lparr>dtype = DT_DOUBLE, shape = [3], flat = [1, 1, 1]\<rparr>,
           vec [10, 11, 12]])"
    by (simp add: example_sample_def numeral_3_eq_3)
  from tr r
  have 2: "AsBatchedTimesteps ragged_sample [] =
     Inr (FailedPreconditionError
       ''Sample::AsBatchedTimesteps when trajectory cannot be decomposed into timesteps.'',
       ragged_sample, [])"
    by simp
  from tm m
  have 3: "AsBatchedTimesteps mixed_sample [] =
     Inr (InvalidArgumentError ''Cannot concatenate tensors that have different data types.'',
          mixed_sample\<lparr>chunks := []\<rparr>, [])"
    by auto
  from e r m ce cr cm 1 2 3 show ?thesis by simp
qed

text \<open>The claim as it was stated fails: a sample that is timestep-decomposable, and whose
  column does not concatenate, is not materialised.\<close>

theorem AsBatchedTimesteps_concat_counterexample:
  "sample_invariants mixed_sample \<and> \<not> next_timestep_called mixed_sample \<and>
   timestep_decomposable mixed_sample \<and>
   is_composed_of_timesteps mixed_sample = Inr True \<and>
   AsBatchedTimesteps mixed_sample [] =
     Inr (InvalidArgumentError ''Cannot concatenate tensors that have different data types.'',
          mixed_sample\<lparr>chunks := []\<rparr>, [])"
  by (simp add: sample_invariants_def mixed_sample_def vec_def is_composed_of_timesteps_def
      dim_size0_def AsBatchedTimesteps_def Concat_def timestep_decomposable_def column_total_def
      leading_dim_def column_chunks_def)

subsection \<open>The timestep-aligned assembly\<close>

lemma Slice_Inr:
  assumes "Slice t start limit = Inr sl" and "dim_size0 t = Inr B"
  shows "0 \<le> start \<and> start \<le> limit \<and> limit \<le> int B \<and> dim_size0 sl = Inr (nat (limit - start))"
  using assms by (auto simp: Slice_def dim_size0_def split: list.splits if_splits)

lemma convert_columns_Ok:
  "convert_columns dec dd delta xs offset remaining bs0 = Ok (batches, bs) \<Longrightarrow>
   (xs = [] \<longrightarrow> bs = bs0) \<and> (0 \<le> bs0 \<longrightarrow> bs = bs0) \<and> (xs \<noteq> [] \<longrightarrow> 0 \<le> bs) \<and>
   list_all2 (\<lambda>p t. dim_size0 (decode_column dec dd delta p) = Inr (nat bs) \<and>
                Slice (decode_column dec dd delta p) offset (min (offset + remaining) bs) = Inr t)
     (rev xs) batches"
proof (induction xs arbitrary: bs0 batches)
  case Nil
  then show ?case by simp
next
  case (Cons x rest)
  let ?b = "decode_column dec dd delta x"
  from Cons.prems obtain d where d: "dim_size0 ?b = Inr d"
    by (auto simp: Let_def split: sum.splits)
  from Cons.prems d have same: "bs0 < 0 \<or> bs0 = int d"
    by (auto simp: Let_def split: if_splits)
  define bs1 where "bs1 = (if bs0 < 0 then int d else bs0)"
  have bs1: "bs1 = int d" using same by (auto simp: bs1_def)
  from Cons.prems d same obtain sl where sl: "Slice ?b offset (min (offset + remaining) bs1) = Inr sl"
    by (auto simp: Let_def bs1_def split: sum.splits if_splits)
  from Cons.prems d same sl obtain batches' where
    rec: "convert_columns dec dd delta rest offset remaining bs1 = Ok (batches', bs)"
    and b: "batches = batches' @ [sl]"
    by (auto simp: Let_def bs1_def DeepCopy_def split: sum.splits if_splits result.splits)
  from Cons.IH [OF rec] bs1 have bs: "bs = bs1"
    and l: "list_all2 (\<lambda>p t. dim_size0 (decode_column dec dd delta p) = Inr (nat bs) \<and>
                Slice (decode_column dec dd delta p) offset (min (offset + remaining) bs) = Inr t)
       (rev rest) batches'"
    by auto
  have "list_all2 (\<lambda>p t. dim_size0 (decode_column dec dd delta p) = Inr (nat bs) \<and>
                Slice (decode_column dec dd delta p) offset (min (offset + remaining) bs) = Inr t)
       (rev rest @ [x]) (batches' @ [sl])"
    using l d sl bs bs1 by (intro list_all2_appendI) auto
  then show ?case using b bs bs1 same by auto
qed

lemma timestep_loop_spans:
  "timestep_loop dec dd responses offset remaining = Ok (groups, r) \<Longrightarrow>
   front_dims groups n = Inr m \<Longrightarrow>
   \<exists>Bs. list_all2 (columns_have_dim dec dd) responses Bs \<and>
        list_all2 (\<lambda>(response, span) batches. group_is_slice dec dd response span batches)
          (zip responses (response_spans Bs offset remaining)) groups \<and>
        remaining_after Bs offset remaining = r \<and>
        int m = int n + (remaining - r)"
proof (induction responses arbitrary: offset remaining groups n)
  case Nil
  then show ?case by auto
next
  case (Cons response rest)
  let ?delta = "delta_encoded (data response)"
  let ?ts = "tensors (data response)"
  from Cons.prems(1) have pos: "0 < remaining"
    by (auto split: if_splits)
  from Cons.prems(1) pos obtain batches bs groups' where
    cc: "convert_columns dec dd ?delta (rev ?ts) offset remaining (- 1) = Ok (batches, bs)"
    and rec: "timestep_loop dec dd rest 0 (remaining - min remaining (bs - offset)) = Ok (groups', r)"
    and g: "groups = batches # groups'"
    by (auto split: result.splits)
  from Cons.prems(2) g obtain t ts' d where
    bt: "batches = t # ts'" and dt: "dim_size0 t = Inr d"
    and fd: "front_dims groups' (n + d) = Inr m"
    by (auto split: list.splits sum.splits)
  note c = convert_columns_Ok [OF cc]
  from c have l: "list_all2 (\<lambda>p t. dim_size0 (decode_column dec dd ?delta p) = Inr (nat bs) \<and>
                Slice (decode_column dec dd ?delta p) offset (min (offset + remaining) bs) = Inr t)
     ?ts batches"
    by simp
  from l bt have ne: "?ts \<noteq> []" by auto
  with c have bs0: "0 \<le> bs" by simp
  from l bt obtain p ps where ps: "?ts = p # ps"
    and p: "dim_size0 (decode_column dec dd ?delta p) = Inr (nat bs)"
    and s: "Slice (decode_column dec dd ?delta p) offset (min (offset + remaining) bs) = Inr t"
    by (auto simp: list_all2_Cons2)
  from Slice_Inr [OF s p] dt bs0 have
    rng: "0 \<le> offset" "offset \<le> min (offset + remaining) bs"
    and d: "int d = min (offset + remaining) bs - offset"
    by auto
  have dec: "int d = min remaining (bs - offset)" using d by auto
  from Cons.IH [OF rec fd] obtain Bs where
    1: "list_all2 (columns_have_dim dec dd) rest Bs"
    and 2: "list_all2 (\<lambda>(response, span) batches. group_is_slice dec dd response span batches)
          (zip rest (response_spans Bs 0 (remaining - min remaining (bs - offset)))) groups'"
    and 3: "remaining_after Bs 0 (remaining - min remaining (bs - offset)) = r"
    and 4: "int m = int (n + d) + (remaining - min remaining (bs - offset) - r)"
    by blast
  have h: "columns_have_dim dec dd response (nat bs)"
    using l ne by (auto simp: columns_have_dim_def list_all_iff list_all2_conv_all_nth in_set_conv_nth)
  have sl: "group_is_slice dec dd response (offset, min (offset + remaining) (int (nat bs))) batches"
    using l bs0 by (auto simp: group_is_slice_def elim: list_all2_mono)
  show ?case
    using 1 2 3 4 h sl g bs0 dec
    by (intro exI [of _ "nat bs # Bs"]) auto
qed

text \<open>
  C7, as amended. When \<open>TimestepTrajectoryAsSample\<close> returns a sample, the decoded columns of
  each response have one leading dimension \<open>B\<close>, and the chunk group of the response holds the
  slice of each column from \<open>offset\<close> to \<open>min (offset + remaining) B\<close>; after each response
  \<open>offset\<close> becomes 0 and \<open>remaining\<close> becomes \<open>remaining - min remaining (B - offset)\<close>
  (this is \<open>response_spans\<close>); after the last response \<open>remaining\<close> is 0; and the emitted
  rows, which the constructor counts in \<open>num_timesteps\<close>, are as many as the declared length
  of the trajectory.
\<close>

theorem TimestepTrajectoryAsSample_spans:
  assumes "TimestepTrajectoryAsSample dec dd toff tlen responses = Ok s"
  shows "\<exists>Bs traj. traj = flat_trajectory (item (info (hd responses))) \<and>
     list_all2 (columns_have_dim dec dd) responses Bs \<and>
     list_all2 (\<lambda>(response, span) batches. group_is_slice dec dd response span batches)
       (zip responses (response_spans Bs (toff traj) (tlen traj))) (chunks s) \<and>
     remaining_after Bs (toff traj) (tlen traj) = 0 \<and>
     int (num_timesteps s) = tlen traj"
proof -
  from assms obtain first rest where r: "responses = first # rest"
    by (cases responses) (auto simp: TimestepTrajectoryAsSample_def)
  let ?traj = "flat_trajectory (item (info first))"
  from assms r obtain groups where
    loop: "timestep_loop dec dd responses (toff ?traj) (tlen ?traj) = Ok (groups, 0)"
    and ctor: "Sample_ctor (key (item (info first))) (probability (info first))
        (table_size (info first)) (priority (item (info first))) groups
        (map squeeze (columns ?traj)) = Inr s"
    by (auto simp: TimestepTrajectoryAsSample_def Let_def split: result.splits if_splits sum.splits)
  from ctor have fd: "front_dims groups 0 = Inr (num_timesteps s)" and c: "chunks s = groups"
    by (auto simp: Sample_ctor_def split: if_splits sum.splits)
  from timestep_loop_spans [OF loop fd] show ?thesis
    using r c by auto
qed


lemma example_assembled:
  "TimestepTrajectoryAsSample (\<lambda>t. t) (\<lambda>t. t) first_slice_offset total_slice_length
     example_responses = Ok assembled_sample"
  by (simp add: TimestepTrajectoryAsSample_def example_responses_def example_response_def
      data_def decode_column_def dim_size0_def vec_def Slice_def DeepCopy_def example_info_def
      first_slice_offset_def total_slice_length_def Sample_ctor_def assembled_sample_def)

theorem TimestepTrajectoryAsSample_spans_witness:
  "TimestepTrajectoryAsSample (\<lambda>t. t) (\<lambda>t. t) first_slice_offset total_slice_length
     example_responses = Ok assembled_sample \<and>
   (\<exists>Bs. list_all2 (columns_have_dim (\<lambda>t. t) (\<lambda>t. t)) example_responses Bs \<and>
      list_all2 (\<lambda>(response, span) batches. group_is_slice (\<lambda>t. t) (\<lambda>t. t) response span batches)
        (zip example_responses (response_spans Bs 1 3)) (chunks assembled_sample) \<and>
      remaining_after Bs 1 3 = 0) \<and>
   int (num_timesteps assembled_sample) = 3"
proof -
  have t: "first_slice_offset (flat_trajectory (item (info (hd example_responses)))) = 1"
    "total_slice_length (flat_trajectory (item (info (hd example_responses)))) = 3"
    by (simp_all add: example_responses_def example_response_def example_info_def
        first_slice_offset_def total_slice_length_def)
  from TimestepTrajectoryAsSample_spans [OF example_assembled] t example_assembled
  show ?thesis by auto
qed

text \<open>The claim as it was stated fails where the last chunk goes on after the end of the
  trajectory: of a chunk of 5 rows the rows 1 and 2 are wanted; the sample is made and
  \<open>remaining\<close> ends at 0, where the update of the claim gives \<open>2 - (5 - 1)\<close>.\<close>

theorem TimestepTrajectoryAsSample_update_counterexample:
  "TimestepTrajectoryAsSample (\<lambda>t. t) (\<lambda>t. t) first_slice_offset total_slice_length
     [long_chunk_response] =
     Ok \<lparr>sample_key = 42, sample_probability = 5, sample_table_size = 100, sample_priority = 1,
         num_timesteps = 2, num_data_tensors = 1, chunks = [[vec [11, 12]]],
         squeeze_columns = [False], next_timestep_index = 0, next_timestep_called = False\<rparr> \<and>
   first_slice_offset (flat_trajectory (item (info long_chunk_response))) = 1 \<and>
   total_slice_length (flat_trajectory (item (info long_chunk_response))) = 2 \<and>
   timestep_loop (\<lambda>t. t) (\<lambda>t. t) [long_chunk_response] 1 2 = Ok ([[vec [11, 12]]], 0) \<and>
   dim_size0 (vec [10, 11, 12, 13, 14]) = Inr 5 \<and>
   claimed_remaining_after [5] 1 2 = - 2"
  by (simp add: TimestepTrajectoryAsSample_def long_chunk_response_def data_def decode_column_def
      dim_size0_def vec_def Slice_def DeepCopy_def Sample_ctor_def first_slice_offset_def
      total_slice_length_def)

subsection \<open>A chunk that is missing\<close>

lemma digits_7: "digits 7 = ''7''" and digits_42: "digits 42 = ''42''"
  by (simp_all add: digits.simps)

text \<open>
  C9. The trajectory of the item 42 references the chunk 7 first, and only the chunk 8 is at
  hand. The assembly from the responses of a stream (general path) returns the internal error
  that names the chunk 7 and the item 42. The assembly from an item of the table does not: the
  lookup inserts a null pointer for the key 7, which is dereferenced.
\<close>

theorem AsSample_missing_chunk:
  "AsSample_responses unpack (\<lambda>traj. False) decompress delta_decode toff tlen [orphan_response] =
     Error (InternalError ''Chunk 7 could not be found when unpacking item 42.'') \<and>
   AsSample_item unpack orphan_item = Fault (UndefinedBehaviour ''null pointer dereferenced'')"
  by (simp add: AsSample_responses_def AsSample_item_def orphan_response_def orphan_item_def
      example_info_def response_chunks_def item_chunks_def data_def digits_7 digits_42)

subsection \<open>The count that a worker returns\<close>

lemma example_item_sample: "AsSample_item example_unpack example_item = Ok unpacked_sample"
  by (simp add: AsSample_item_def example_item_def example_info_def item_chunks_def
      example_unpack_def Slice_def vec_def Concat_def row_size_def Sample_ctor_def dim_size0_def
      unpacked_sample_def)

text \<open>The local worker returns the number of the samples that it pushed, except where it
  returns from the test of \<^verbatim>\<open>closed_\<close> at the top of its loop; the remote worker, which tests
  \<^verbatim>\<open>closed_\<close> before its loop, always does.\<close>

lemma push_items_count:
  "push_items unpack items queue n = Returns (e, n', queue') \<Longrightarrow>
   \<exists>pushed. q_items queue' = q_items queue @ pushed \<and> int (length pushed) = n' - n"
proof (induction items arbitrary: queue n)
  case Nil
  then show ?case by simp
next
  case (Cons si rest)
  show ?case
  proof (cases "AsSample_item unpack si")
    case (Fault f)
    then show ?thesis using Cons.prems by simp
  next
    case (Error err)
    then show ?thesis using Cons.prems by auto
  next
    case (Ok sample)
    show ?thesis
    proof (cases "q_closed queue")
      case True
      then show ?thesis using Cons.prems Ok by (auto simp: Queue_Push_def)
    next
      case False
      with Cons.prems Ok have room: "length (q_items queue) < q_capacity queue"
        by (auto simp: Queue_Push_def split: if_splits)
      with Cons.prems Ok False have
        "push_items unpack rest (queue\<lparr>q_items := q_items queue @ [sample]\<rparr>) (n + 1) =
           Returns (e, n', queue')"
        by (simp add: Queue_Push_def)
      from Cons.IH [OF this] obtain pushed where
        "q_items queue' = (q_items queue @ [sample]) @ pushed" "int (length pushed) = n' - (n + 1)"
        by auto
      then show ?thesis
        by (intro exI [of _ "sample # pushed"]) auto
    qed
  qed
qed

lemma FetchSamples_local_loop_count:
  "FetchSamples_local_loop unpack rounds queue num_samples n = Returns ((k, st), queue') \<Longrightarrow>
   (k = 0 \<and> st = CancelledError ''`Close` called on Sampler.'') \<or>
   (\<exists>pushed. q_items queue' = q_items queue @ pushed \<and> int (length pushed) = k - n)"
proof (induction rounds arbitrary: queue n)
  case Nil
  then show ?case
    by (auto simp: FetchSamples_local_loop.simps [of _ "[]"] split: if_splits)
next
  case (Cons rnd rest)
  note unfold = FetchSamples_local_loop.simps [of unpack "rnd # rest" queue num_samples n]
  show ?case
  proof (cases "\<not> n < num_samples \<or> seen_closed rnd \<or>
      (\<not> (IsDeadlineExceeded (table_status rnd) \<and> before_final_deadline rnd) \<and>
        \<not> ok (table_status rnd))")
    case True
    then show ?thesis using Cons.prems by (auto simp: unfold split: if_splits)
  next
    case False
    show ?thesis
    proof (cases "IsDeadlineExceeded (table_status rnd) \<and> before_final_deadline rnd")
      case True
      with False Cons.prems have
        "FetchSamples_local_loop unpack rest queue num_samples n = Returns ((k, st), queue')"
        by (simp add: unfold)
      from Cons.IH [OF this] show ?thesis .
    next
      case nd: False
      from False nd Cons.prems obtain e m q1 where
        p: "push_items unpack (table_items rnd) queue n = Returns (e, m, q1)"
        by (auto simp: unfold split: run.splits)
      from push_items_count [OF p] obtain pushed where
        pushed: "q_items q1 = q_items queue @ pushed" "int (length pushed) = m - n"
        by auto
      show ?thesis
      proof (cases e)
        case None
        with False nd Cons.prems p have
          "FetchSamples_local_loop unpack rest q1 num_samples m = Returns ((k, st), queue')"
          by (auto simp: unfold split: if_splits)
        from Cons.IH [OF this] show ?thesis
        proof
          assume "k = 0 \<and> st = CancelledError ''`Close` called on Sampler.''"
          then show ?thesis by simp
        next
          assume "\<exists>more. q_items queue' = q_items q1 @ more \<and> int (length more) = k - m"
          then obtain more where "q_items queue' = q_items q1 @ more" "int (length more) = k - m"
            by auto
          with pushed have "q_items queue' = q_items queue @ (pushed @ more) \<and>
              int (length (pushed @ more)) = k - n"
            by simp
          then show ?thesis by blast
        qed
      next
        case (Some err)
        with False nd Cons.prems p have "k = m" "queue' = q1"
          by (auto simp: unfold split: if_splits)
        with pushed show ?thesis by auto
      qed
    qed
  qed
qed


lemma read_and_push_count:
  "read_and_push a finish turns inc queue n = Returns (e, n', queue', inc') \<Longrightarrow>
   \<exists>pushed. q_items queue' = q_items queue @ pushed \<and> int (length pushed) = n' - n"
proof (induction turns arbitrary: inc queue n)
  case 0
  then show ?case by simp
next
  case (Suc turns)
  show ?case
  proof (cases "read_sample [] inc")
    case None
    then show ?thesis using Suc.prems by auto
  next
    case (Some got)
    obtain responses rest where got: "got = (responses, rest)" by (cases got)
    show ?thesis
    proof (cases "AsSample_with a responses")
      case (Fault f)
      then show ?thesis using Suc.prems Some got by simp
    next
      case (Error err)
      then show ?thesis using Suc.prems Some got by auto
    next
      case (Ok sample)
      show ?thesis
      proof (cases "q_closed queue")
        case True
        then show ?thesis using Suc.prems Some got Ok by (auto simp: Queue_Push_def)
      next
        case False
        with Suc.prems Some got Ok have room: "length (q_items queue) < q_capacity queue"
          by (auto simp: Queue_Push_def split: if_splits)
        with Suc.prems Some got Ok False have
          "read_and_push a finish turns rest (queue\<lparr>q_items := q_items queue @ [sample]\<rparr>) (n + 1) =
             Returns (e, n', queue', inc')"
          by (simp add: Queue_Push_def)
        from Suc.IH [OF this] obtain pushed where
          "q_items queue' = (q_items queue @ [sample]) @ pushed"
          "int (length pushed) = n' - (n + 1)"
          by auto
        then show ?thesis
          by (intro exI [of _ "sample # pushed"]) auto
      qed
    qed
  qed
qed

lemma request_loop_count:
  "request_loop a spr finish writes inc queue num_samples n = Returns ((k, st), queue') \<Longrightarrow>
   \<exists>pushed. q_items queue' = q_items queue @ pushed \<and> int (length pushed) = k - n"
proof (induction writes arbitrary: inc queue n)
  case Nil
  then show ?case
    by (auto simp: request_loop.simps [of _ _ _ "[]"] split: if_splits)
next
  case (Cons written rest)
  note unfold = request_loop.simps [of a spr finish "written # rest" inc queue num_samples n]
  show ?case
  proof (cases "\<not> n < num_samples \<or> \<not> written")
    case True
    then show ?thesis using Cons.prems by (auto simp: unfold split: if_splits)
  next
    case False
    then have step: "request_loop a spr finish (written # rest) inc queue num_samples n =
        (case read_and_push a finish (nat (min spr (num_samples - n))) inc queue n of
           Blocks \<Rightarrow> Blocks
         | Stops f \<Rightarrow> Stops f
         | Returns (Some e, n, queue', inc') \<Rightarrow> Returns ((n, e), queue')
         | Returns (None, n, queue', inc') \<Rightarrow>
             request_loop a spr finish rest inc' queue' num_samples n)"
      by (subst unfold) simp
    note prem = Cons.prems [unfolded step]
    from prem obtain e m q1 inc1 where
      p: "read_and_push a finish (nat (min spr (num_samples - n))) inc queue n =
            Returns (e, m, q1, inc1)"
      by (auto split: run.splits)
    from read_and_push_count [OF p] obtain pushed where
      pushed: "q_items q1 = q_items queue @ pushed" "int (length pushed) = m - n"
      by auto
    show ?thesis
    proof (cases e)
      case None
      with prem p have
        "request_loop a spr finish rest inc1 q1 num_samples m = Returns ((k, st), queue')"
        by simp
      from Cons.IH [OF this] obtain more where
        "q_items queue' = q_items q1 @ more" "int (length more) = k - m"
        by auto
      with pushed have "q_items queue' = q_items queue @ (pushed @ more) \<and>
          int (length (pushed @ more)) = k - n"
        by simp
      then show ?thesis by blast
    next
      case (Some err)
      with prem p have "k = m" "queue' = q1"
        by auto
      with pushed show ?thesis by auto
    qed
  qed
qed

lemma FetchSamples_grpc_count:
  "FetchSamples_grpc a spr worker_closed stream queue num_samples = Returns ((k, st), queue') \<Longrightarrow>
   \<exists>pushed. q_items queue' = q_items queue @ pushed \<and> int (length pushed) = k"
  using request_loop_count [of a spr "finish_status stream" "write_results stream"
      "incoming stream" queue num_samples 0 k st queue']
  by (auto simp: FetchSamples_grpc_def split: if_splits)

text \<open>
  C2. A sampler hands the quota 2 to its local worker. The table returns one item, which the
  worker pushes; then \<^verbatim>\<open>Close\<close> is called, and the worker sees \<^verbatim>\<open>closed_\<close> at the top of the next
  turn of its loop. \<open>FetchSamples\<close> returns the count 0, not 1, with the cancelled status, and
  \<open>RunWorker\<close> takes the whole quota off \<open>requested\<close>: \<open>requested - returned\<close> is 0 while the
  queue holds one sample.
\<close>

theorem FetchSamples_local_cancelled_count:
  "RunWorker_begin fresh_sampler = Returns (Some 2, fresh_sampler\<lparr>requested := 2\<rparr>) \<and>
   FetchSamples_local example_unpack cancelled_rounds (samples fresh_sampler) 2 =
     Returns ((0, CancelledError ''`Close` called on Sampler.''),
              \<lparr>q_items = [unpacked_sample], q_closed = False, q_capacity = 1\<rparr>) \<and>
   RunWorker_end
       (Close (fresh_sampler\<lparr>requested := 2,
          samples := \<lparr>q_items = [unpacked_sample], q_closed = False, q_capacity = 1\<rparr>\<rparr>))
       2 (0, CancelledError ''`Close` called on Sampler.'') =
     (False, fresh_sampler\<lparr>requested := 0, closed := True,
        worker_status := CancelledError ''`Close` called on Sampler.'',
        samples := \<lparr>q_items = [unpacked_sample], q_closed = True, q_capacity = 1\<rparr>\<rparr>)"
  by (simp add: RunWorker_begin_def should_stop_workers_def fresh_sampler_def ok_def OkStatus_def
      FetchSamples_local_def FetchSamples_local_loop.simps cancelled_rounds_def
      example_item_sample Queue_Push_def
      IsDeadlineExceeded_def RunWorker_end_def Close_def Queue_Close_def CancelledError_def
      IsUnavailable_def)



end
